theory Spec2Isabelle
  imports Complex_Main "HOL-Library.Char_ord" "HOL-Library.List_Lexorder"
begin

section \<open>Data model (src/lib/types.ts)\<close>

text \<open>
  Strings of the program are modelled as \<open>string\<close>; one \<open>char\<close> stands for one
  code unit, so \<open>take 60\<close> is \<open>slice(0, 60)\<close>. A JavaScript number that is only
  stored and copied (temperature, topP, maxTokens) is a \<open>real\<close>; a value that may
  be \<open>undefined\<close> or \<open>null\<close> is an \<open>option\<close>.
\<close>

datatype ChatRole = User | Assistant | System

record ChatMessage =
  role :: ChatRole
  content :: string

record StoredChatSession =
  sessionId :: string
  title :: string
  messages :: "ChatMessage list"
  model :: string
  temperature :: "real option"
  topP :: "real option"
  maxTokens :: "real option"
  userId :: "string option"
  createdAt :: string
  updatedAt :: string

record ChatListItem =
  item_sessionId :: string
  item_title :: string
  item_createdAt :: string
  item_updatedAt :: string
  item_model :: string

record ChatListResponse =
  items :: "ChatListItem list"
  page :: int
  total :: nat
  totalPages :: int

text \<open>The wire unit of the relay: \<open>StreamEnvelope\<close>, and the lines the relay enqueues.\<close>

datatype StreamEnvelope =
  Token string
  | Meta nat int
  | Error string

datatype line = Data StreamEnvelope | Done

record controller =
  queue :: "line list"
  closed :: bool

datatype json_payload =
  ListJson ChatListResponse
  | DocJson StoredChatSession
  | IdJson string

datatype response =
  TextResponse nat string
  | JsonResponse json_payload
  | EmptyResponse nat
  | StreamResponse controller
  | HandlerThrows

section \<open>JavaScript helpers\<close>

text \<open>Truthiness of a possibly absent string: \<open>undefined\<close>, \<open>null\<close> and \<open>''\<close> are falsy.\<close>

fun truthy :: "string option \<Rightarrow> bool" where
  "truthy None = False"
| "truthy (Some s) = (s \<noteq> [])"

text \<open>\<open>a || b\<close> on strings, with a string as the last alternative.\<close>

fun or_else :: "string option \<Rightarrow> string \<Rightarrow> string" where
  "or_else None d = d"
| "or_else (Some s) d = (if s \<noteq> [] then s else d)"

text \<open>\<open>a || b\<close> where the alternative may itself be \<open>undefined\<close>.\<close>

fun or_opt :: "string option \<Rightarrow> string option \<Rightarrow> string option" where
  "or_opt None b = b"
| "or_opt (Some s) b = (if s \<noteq> [] then Some s else b)"

text \<open>
  White space as \<open>String.prototype.trim\<close> sees it, among the code units below 256:
  TAB, LF, VT, FF, CR, space and the no-break space.
\<close>

definition is_ws :: "char \<Rightarrow> bool" where
  "is_ws c = (c = CHR 0x09 \<or> c = CHR 0x0A \<or> c = CHR 0x0B \<or> c = CHR 0x0C
     \<or> c = CHR 0x0D \<or> c = CHR 0x20 \<or> c = CHR 0xA0)"

definition trim :: "string \<Rightarrow> string" where
  "trim s = rev (dropWhile is_ws (rev (dropWhile is_ws s)))"

section \<open>The document store (collection \<open>chats\<close>)\<close>

text \<open>
  The collection is the list of its documents in natural order. The operations the
  handlers call act on the first document that matches the filter, as the store's
  \<open>findOne\<close>, \<open>updateOne\<close> and \<open>deleteOne\<close> do; \<open>insertOne\<close> adds at the end.
\<close>

type_synonym store = "StoredChatSession list"

text \<open>The filter \<open>{ sessionId, userId }\<close>.\<close>

definition by_session_user :: "string \<Rightarrow> string \<Rightarrow> StoredChatSession \<Rightarrow> bool" where
  "by_session_user sid uid d = (sessionId d = sid \<and> userId d = Some uid)"

fun findOne :: "(StoredChatSession \<Rightarrow> bool) \<Rightarrow> store \<Rightarrow> StoredChatSession option" where
  "findOne f [] = None"
| "findOne f (d # ds) = (if f d then Some d else findOne f ds)"

fun updateOne ::
  "(StoredChatSession \<Rightarrow> bool) \<Rightarrow> (StoredChatSession \<Rightarrow> StoredChatSession) \<Rightarrow> store \<Rightarrow> store" where
  "updateOne f u [] = []"
| "updateOne f u (d # ds) = (if f d then u d # ds else d # updateOne f u ds)"

fun deleteOne :: "(StoredChatSession \<Rightarrow> bool) \<Rightarrow> store \<Rightarrow> store" where
  "deleteOne f [] = []"
| "deleteOne f (d # ds) = (if f d then ds else d # deleteOne f ds)"

definition insertOne :: "StoredChatSession \<Rightarrow> store \<Rightarrow> store" where
  "insertOne d ds = ds @ [d]"

section \<open>Authentication (\<open>getServerSession\<close>)\<close>

text \<open>
  \<open>getServerSession\<close> returns \<open>null\<close> (\<open>None\<close>) or a session whose \<open>user\<close> may be
  absent and carries an optional \<open>id\<close> and an optional \<open>email\<close>.
\<close>

record session_user =
  id' :: "string option"
  email :: "string option"

record auth_session =
  user :: "session_user option"

text \<open>
  The chat route: \<open>session?.user?.id || session?.user?.email || undefined\<close>.
\<close>

definition chat_userId :: "auth_session option \<Rightarrow> string option" where
  "chat_userId s =
     (case s of None \<Rightarrow> None
      | Some a \<Rightarrow> (case user a of None \<Rightarrow> None
          | Some u \<Rightarrow> or_opt (id' u) (or_opt (email u) None)))"

section \<open>The chat-stream relay (src/app/api/chat/route.ts)\<close>

datatype messages_field = NoArray | Array "ChatMessage list"

text \<open>
  The parsed request body. \<open>req_messages\<close> is \<open>NoArray\<close> when the field is missing
  or is not an array (\<open>Array.isArray\<close> is false). A body that is \<open>null\<close> or not an
  object has every field absent (\<open>body || {}\<close>).
\<close>

record ChatRequestBody =
  req_messages :: messages_field
  req_model :: "string option"
  req_temperature :: "real option"
  req_topP :: "real option"
  req_maxTokens :: "real option"
  req_sessionId :: "string option"

text \<open>
  A thrown value, as the \<open>catch\<close> clauses see it: \<open>null\<close> or \<open>undefined\<close>, of which
  reading \<open>.message\<close> throws in turn, or any other value, with its \<open>message\<close> if
  it has one.
\<close>

datatype thrown = Nullish | Value "string option"

text \<open>
  What the upstream service does once iterated: each event is a chunk with its text, or
  a failure (the iterator rejects, or \<open>chunk.text()\<close> throws) with the value thrown.
  The end of the list is normal exhaustion.
\<close>

datatype stream_event = Chunk string | Throw thrown

datatype upstream = InvokeFails thrown | Stream "stream_event list"

text \<open>
  Everything the handler reads from outside during one request: the clock, the
  authentication session (\<open>getServerSession\<close> is taken to return), whether the store
  can be reached in the pre-step and in the post-step (a failure there throws inside
  the step's own \<open>try\<close>), and the upstream service's behaviour.
\<close>

record chat_env =
  started :: int
  authSession :: "auth_session option"
  preDb :: bool
  preNowIso :: string
  gemini :: upstream
  finished :: int
  postDb :: bool
  postNowIso :: string

text \<open>The calls the handler makes to its collaborators, in order.\<close>

datatype call =
  GetServerSession | ChatsCollection | FindOne | InsertOne | UpdateOne | StreamGemini

text \<open>
  Title of an auto-created session:
  \<open>messages.find(m => m.role === 'user' && m.content.trim())?.content.slice(0, 60) || 'New Chat'\<close>.
\<close>

definition chat_title :: "ChatMessage list \<Rightarrow> string" where
  "chat_title ms =
     or_else (map_option (\<lambda>m. take 60 (content m))
                (List.find (\<lambda>m. role m = User \<and> trim (content m) \<noteq> []) ms))
       ''New Chat''"

text \<open>\<open>[...messages].reverse().find(m => m.role === 'user')\<close>\<close>

definition lastUser :: "ChatMessage list \<Rightarrow> ChatMessage option" where
  "lastUser ms = List.find (\<lambda>m. role m = User) (rev ms)"

text \<open>The update of the append branch: \<open>$push\<close> of the message, \<open>$set\<close> of the rest.\<close>

definition push_user ::
  "ChatMessage \<Rightarrow> string \<Rightarrow> ChatRequestBody \<Rightarrow> string \<Rightarrow> StoredChatSession \<Rightarrow> StoredChatSession" where
  "push_user m nowIso b mdl d =
     d\<lparr>messages := messages d @ [m], updatedAt := nowIso, model := mdl,
       temperature := req_temperature b, topP := req_topP b, maxTokens := req_maxTokens b\<rparr>"

text \<open>
  The body of the pre-step (lines 36 to 75), entered with a truthy \<open>sessionId\<close> and a
  defined \<open>userId\<close>. It returns the store and the calls made.
\<close>

definition create_or_append ::
  "chat_env \<Rightarrow> ChatRequestBody \<Rightarrow> ChatMessage list \<Rightarrow> string \<Rightarrow> string \<Rightarrow> string
     \<Rightarrow> store \<Rightarrow> store \<times> call list" where
  "create_or_append env b ms mdl sid uid st =
     (if \<not> preDb env then (st, [ChatsCollection])
      else (case findOne (by_session_user sid uid) st of
          None \<Rightarrow>
            (insertOne
               \<lparr>sessionId = sid, title = chat_title ms, messages = ms, model = mdl,
                temperature = req_temperature b, topP = req_topP b,
                maxTokens = req_maxTokens b, userId = Some uid,
                createdAt = preNowIso env, updatedAt = preNowIso env\<rparr> st,
             [ChatsCollection, FindOne, InsertOne])
        | Some existing \<Rightarrow>
            (case lastUser ms of
               None \<Rightarrow> (st, [ChatsCollection, FindOne])
             | Some m \<Rightarrow>
                 (updateOne (by_session_user sid uid) (push_user m (preNowIso env) b mdl) st,
                  [ChatsCollection, FindOne, UpdateOne]))))"

text \<open>The pre-step with its guard \<open>if (sessionId && userId)\<close>.\<close>

definition pre_step ::
  "chat_env \<Rightarrow> ChatRequestBody \<Rightarrow> ChatMessage list \<Rightarrow> string \<Rightarrow> store \<Rightarrow> store \<times> call list" where
  "pre_step env b ms mdl st =
     (case (req_sessionId b, chat_userId (authSession env)) of
        (Some i, Some u) \<Rightarrow>
          (if i \<noteq> [] then create_or_append env b ms mdl i u st else (st, []))
      | _ \<Rightarrow> (st, []))"

text \<open>The state of the relay loop: \<open>tokenCount\<close>, \<open>finalText\<close> and what was enqueued.\<close>

record relay_state =
  tokenCount :: nat
  finalText :: string
  enqueued :: "line list"

text \<open>
  \<open>for await (const chunk of stream.stream)\<close>: a chunk with a non-empty text is
  accumulated, counted and enqueued as a token envelope; a failure leaves the loop
  with the error thrown.
\<close>

fun for_await :: "stream_event list \<Rightarrow> relay_state \<Rightarrow> relay_state \<times> thrown option" where
  "for_await [] s = (s, None)"
| "for_await (Chunk text # rest) s =
     for_await rest
       (if text \<noteq> []
        then s\<lparr>tokenCount := tokenCount s + 1, finalText := finalText s @ text,
               enqueued := enqueued s @ [Data (Token text)]\<rparr>
        else s)"
| "for_await (Throw e # rest) s = (s, Some e)"

text \<open>The update of the post-step: \<open>$push\<close> of the assistant message, \<open>$set\<close> of \<open>updatedAt\<close>.\<close>

definition push_assistant :: "string \<Rightarrow> string \<Rightarrow> StoredChatSession \<Rightarrow> StoredChatSession" where
  "push_assistant text nowIso d =
     d\<lparr>messages := messages d @ [\<lparr>role = Assistant, content = text\<rparr>], updatedAt := nowIso\<rparr>"

text \<open>
  \<open>start(controller)\<close> of the readable stream (lines 84 to 128): the loop, then the
  meta envelope, the sentinel and the post-step, or the error envelope; the
  controller is closed in every case. When the value thrown is \<open>null\<close> or
  \<open>undefined\<close>, \<open>(err as Error).message\<close> throws inside the \<open>catch\<close>: no error
  envelope is enqueued, and \<open>finally\<close> closes the controller.
\<close>

definition start ::
  "chat_env \<Rightarrow> stream_event list \<Rightarrow> string option \<Rightarrow> string option \<Rightarrow> store
     \<Rightarrow> controller \<times> store \<times> call list" where
  "start env evs sid uid st =
     (case for_await evs \<lparr>tokenCount = 0, finalText = [], enqueued = []\<rparr> of
        (s, None) \<Rightarrow>
          (let elapsed = finished env - started env;
               q = enqueued s @ [Data (Meta (tokenCount s) elapsed), Done]
           in (case (sid, uid) of
                 (Some i, Some u) \<Rightarrow>
                   (if i \<noteq> []
                    then (if postDb env
                          then (\<lparr>queue = q, closed = True\<rparr>,
                                updateOne (by_session_user i u)
                                  (push_assistant (finalText s) (postNowIso env)) st,
                                [ChatsCollection, UpdateOne])
                          else (\<lparr>queue = q, closed = True\<rparr>, st, [ChatsCollection]))
                    else (\<lparr>queue = q, closed = True\<rparr>, st, []))
               | _ \<Rightarrow> (\<lparr>queue = q, closed = True\<rparr>, st, [])))
      | (s, Some Nullish) \<Rightarrow> (\<lparr>queue = enqueued s, closed = True\<rparr>, st, [])
      | (s, Some (Value msg)) \<Rightarrow>
          (\<lparr>queue = enqueued s @ [Data (Error (or_else msg ''stream error''))], closed = True\<rparr>,
           st, []))"

record chat_result =
  chat_response :: response
  chat_store :: store
  chat_calls :: "call list"

text \<open>
  The \<open>try\<close> block of the handler (lines 29 to 142), entered once the body is
  validated: authentication, the pre-step, the upstream invocation, the stream. When
  the invocation throws \<open>null\<close> or \<open>undefined\<close>, \<open>(e as Error).message\<close> throws
  inside the outer \<open>catch\<close> and the handler itself throws.
\<close>

definition relay ::
  "chat_env \<Rightarrow> ChatRequestBody \<Rightarrow> ChatMessage list \<Rightarrow> string \<Rightarrow> store \<Rightarrow> chat_result" where
  "relay env b ms mdl st =
     (case pre_step env b ms mdl st of
        (st1, calls1) \<Rightarrow>
          (case gemini env of
             InvokeFails Nullish \<Rightarrow>
               \<lparr>chat_response = HandlerThrows, chat_store = st1,
                chat_calls = [GetServerSession] @ calls1 @ [StreamGemini]\<rparr>
           | InvokeFails (Value msg) \<Rightarrow>
               \<lparr>chat_response =
                  TextResponse 500 (''Upstream error: '' @ or_else msg ''unknown error''),
                chat_store = st1,
                chat_calls = [GetServerSession] @ calls1 @ [StreamGemini]\<rparr>
           | Stream evs \<Rightarrow>
               (case start env evs (req_sessionId b) (chat_userId (authSession env)) st1 of
                  (c, st2, calls2) \<Rightarrow>
                    \<lparr>chat_response = StreamResponse c, chat_store = st2,
                     chat_calls = [GetServerSession] @ calls1 @ [StreamGemini] @ calls2\<rparr>)))"

text \<open>
  The handler \<open>POST\<close>. The request body is \<open>None\<close> when \<open>req.json()\<close> throws;
  \<open>!Array.isArray(messages) || !model\<close> rejects the request before anything else
  is called.
\<close>

definition POST_chat :: "chat_env \<Rightarrow> ChatRequestBody option \<Rightarrow> store \<Rightarrow> chat_result" where
  "POST_chat env body st =
     (case body of
        None \<Rightarrow> \<lparr>chat_response = TextResponse 400 ''Invalid JSON'', chat_store = st, chat_calls = []\<rparr>
      | Some b \<Rightarrow>
          (case (req_messages b, req_model b) of
             (Array ms, Some mdl) \<Rightarrow>
               (if mdl \<noteq> [] then relay env b ms mdl st
                else \<lparr>chat_response = TextResponse 400 ''Missing required fields'',
                      chat_store = st, chat_calls = []\<rparr>)
           | _ \<Rightarrow>
               \<lparr>chat_response = TextResponse 400 ''Missing required fields'',
                chat_store = st, chat_calls = []\<rparr>))"

text \<open>
  The data of the token envelopes of an output, in order: what the client appends to
  the text it shows (Chat.tsx, \<open>fullText += tokenText\<close>).
\<close>

fun token_payloads :: "line list \<Rightarrow> string list" where
  "token_payloads [] = []"
| "token_payloads (Data (Token t) # ls) = t # token_payloads ls"
| "token_payloads (l # ls) = token_payloads ls"

section \<open>The session collection (the handlers of \<open>/api/sessions\<close>)\<close>

text \<open>
  What the session handlers read from outside: the authentication session, whether the
  store can be reached (\<open>chatsCollection\<close> and the operations on it throw
  otherwise), the clock and \<open>randomUUID\<close>.
\<close>

record sessions_env =
  session :: "auth_session option"
  dbUp :: bool
  now :: string
  uuid :: string

text \<open>
  \<open>(session.user as {...}).id || session.user?.email || fallback\<close>. Reading \<open>id\<close> of
  an absent \<open>user\<close> throws (\<open>None\<close>); the handlers' \<open>catch\<close> answers 500.
\<close>

definition route_userId :: "string \<Rightarrow> auth_session \<Rightarrow> string option" where
  "route_userId fallback a =
     (case user a of None \<Rightarrow> None
      | Some u \<Rightarrow> Some (or_else (or_opt (id' u) (email u)) fallback))"

subsection \<open>Query parameters\<close>

record list_query =
  q_page :: "string option"
  q_pageSize :: "string option"
  q_q :: "string option"

definition is_digit :: "char \<Rightarrow> bool" where
  "is_digit c = (CHR ''0'' \<le> c \<and> c \<le> CHR ''9'')"

definition digits_val :: "string \<Rightarrow> nat" where
  "digits_val ds = foldl (\<lambda>acc c. 10 * acc + (of_char c - 48)) 0 ds"

text \<open>
  \<open>parseInt(s, 10)\<close>: leading white space is skipped, a sign is read, then the longest
  run of decimal digits; with no digit the result is \<open>NaN\<close> (\<open>None\<close>). Integers are
  unbounded here; the code's numbers are doubles, which agree with them up to
  \<open>2^53\<close>, far above the bounds of the page size.
\<close>

definition parseInt :: "string \<Rightarrow> int option" where
  "parseInt s =
     (let t = dropWhile is_ws s;
          neg = (t \<noteq> [] \<and> hd t = CHR ''-'');
          u = (if t \<noteq> [] \<and> (hd t = CHR ''-'' \<or> hd t = CHR ''+'') then tl t else t);
          ds = takeWhile is_digit u
      in if ds = [] then None
         else Some (if neg then - int (digits_val ds) else int (digits_val ds)))"

text \<open>\<open>Math.max\<close> and \<open>Math.min\<close> with a constant: \<open>NaN\<close> in, \<open>NaN\<close> out.\<close>

fun math_max :: "int \<Rightarrow> int option \<Rightarrow> int option" where
  "math_max a None = None"
| "math_max a (Some b) = Some (max a b)"

fun math_min :: "int \<Rightarrow> int option \<Rightarrow> int option" where
  "math_min a None = None"
| "math_min a (Some b) = Some (min a b)"

text \<open>\<open>Math.max(1, parseInt(searchParams.get('page') || '1', 10))\<close>\<close>

definition page_of :: "list_query \<Rightarrow> int option" where
  "page_of qs = math_max 1 (parseInt (or_else (q_page qs) ''1''))"

text \<open>\<open>Math.min(50, Math.max(5, parseInt(searchParams.get('pageSize') || '20', 10)))\<close>\<close>

definition pageSize_of :: "list_query \<Rightarrow> int option" where
  "pageSize_of qs = math_min 50 (math_max 5 (parseInt (or_else (q_pageSize qs) ''20'')))"

subsection \<open>The title filter\<close>

text \<open>The character class \<open>[.*+?^${}()|[\]\\]\<close> of the escaping \<open>replace\<close>.\<close>

definition regex_meta :: "char \<Rightarrow> bool" where
  "regex_meta c = (c \<in> set [CHR ''.'', CHR ''*'', CHR ''+'', CHR ''?'', CHR ''^'', CHR ''$'',
     CHR ''{'', CHR ''}'', CHR ''('', CHR '')'', CHR ''|'', CHR ''['', CHR '']'', CHR 0x5C])"

text \<open>\<open>q.replace(/[.*+?^${}()|[\]\\]/g, '\\$&')\<close>: a backslash before each of them.\<close>

definition escapeRegExp :: "string \<Rightarrow> string" where
  "escapeRegExp q = concat (map (\<lambda>c. if regex_meta c then [CHR 0x5C, c] else [c]) q)"

text \<open>
  The store's regular expressions are modelled on the patterns that denote one literal
  string: a backslash followed by a metacharacter stands for that character, and any
  character that is not a metacharacter stands for itself. \<open>regex_literal\<close> reads the
  literal off such a pattern; every other pattern is outside the model (\<open>None\<close>).
\<close>

fun regex_literal :: "string \<Rightarrow> string option" where
  "regex_literal [] = Some []"
| "regex_literal [c] = (if regex_meta c then None else Some [c])"
| "regex_literal (c # d # cs) =
     (if c = CHR 0x5C
      then (if regex_meta d then map_option ((#) d) (regex_literal cs) else None)
      else if regex_meta c then None
      else map_option ((#) c) (regex_literal (d # cs)))"

definition to_lower :: "char \<Rightarrow> char" where
  "to_lower c =
     (if CHR ''A'' \<le> c \<and> c \<le> CHR ''Z'' then char_of (of_char c + (32 :: nat)) else c)"

fun starts_with :: "string \<Rightarrow> string \<Rightarrow> bool" where
  "starts_with [] s = True"
| "starts_with (p # ps) [] = False"
| "starts_with (p # ps) (c # cs) = (p = c \<and> starts_with ps cs)"

fun contains :: "string \<Rightarrow> string \<Rightarrow> bool" where
  "contains p [] = (p = [])"
| "contains p (c # cs) = (starts_with p (c # cs) \<or> contains p cs)"

text \<open>
  \<open>{ $regex: pattern, $options: 'i' }\<close>: an unanchored match, letters compared
  without case.
\<close>

definition regex_i :: "string \<Rightarrow> string \<Rightarrow> bool" where
  "regex_i pattern s =
     (case regex_literal pattern of
        None \<Rightarrow> False
      | Some lit \<Rightarrow> contains (map to_lower lit) (map to_lower s))"

text \<open>
  The filter of the listing: \<open>{ userId }\<close>, and \<open>title\<close> when \<open>q\<close> is not empty.
\<close>

definition list_filter :: "string \<Rightarrow> string \<Rightarrow> StoredChatSession \<Rightarrow> bool" where
  "list_filter uid q d =
     (userId d = Some uid \<and> (if q \<noteq> [] then regex_i (escapeRegExp q) (title d) else True))"

subsection \<open>Listing\<close>

text \<open>
  \<open>.sort({ updatedAt: -1 })\<close>: timestamps are compared as strings; documents with
  equal timestamps keep their order.
\<close>

fun insert_desc :: "StoredChatSession \<Rightarrow> store \<Rightarrow> store" where
  "insert_desc d [] = [d]"
| "insert_desc d (e # es) =
     (if updatedAt e \<le> updatedAt d then d # e # es else e # insert_desc d es)"

definition sort_desc :: "store \<Rightarrow> store" where
  "sort_desc ds = foldr insert_desc ds []"

text \<open>\<open>{ projection: { messages: 0 } }\<close>: the document without its messages.\<close>

definition projection :: "StoredChatSession \<Rightarrow> StoredChatSession" where
  "projection d = d\<lparr>messages := []\<rparr>"

text \<open>\<open>d.sessionId && d.title && d.createdAt && d.updatedAt && d.model\<close>\<close>

definition listable :: "StoredChatSession \<Rightarrow> bool" where
  "listable d =
     (sessionId d \<noteq> [] \<and> title d \<noteq> [] \<and> createdAt d \<noteq> [] \<and> updatedAt d \<noteq> []
      \<and> model d \<noteq> [])"

definition to_item :: "StoredChatSession \<Rightarrow> ChatListItem" where
  "to_item d =
     \<lparr>item_sessionId = sessionId d, item_title = title d, item_createdAt = createdAt d,
      item_updatedAt = updatedAt d, item_model = model d\<rparr>"

text \<open>\<open>Math.ceil(total / pageSize) || 1\<close>\<close>

definition totalPages_of :: "nat \<Rightarrow> int \<Rightarrow> int" where
  "totalPages_of n ps =
     (let c = (int n + ps - 1) div ps in if c = 0 then 1 else c)"

text \<open>
  The cursor \<open>find(filter, projection).sort().skip().limit().toArray()\<close> for a page
  and a page size that are numbers.
\<close>

definition find_page :: "(StoredChatSession \<Rightarrow> bool) \<Rightarrow> int \<Rightarrow> int \<Rightarrow> store \<Rightarrow> store" where
  "find_page f p ps st =
     take (nat ps) (drop (nat ((p - 1) * ps)) (sort_desc (map projection (filter f st))))"

text \<open>
  \<open>GET /api/sessions\<close>. A page or a page size that is \<open>NaN\<close> reaches the cursor as
  \<open>skip\<close> or \<open>limit\<close>; the store rejects it, and the handler's \<open>catch\<close> answers 500.
\<close>

definition GET_sessions :: "sessions_env \<Rightarrow> list_query \<Rightarrow> store \<Rightarrow> response" where
  "GET_sessions env qs st =
     (let q = trim (or_else (q_q qs) [])
      in (case session env of
            None \<Rightarrow> TextResponse 401 ''Unauthorized''
          | Some a \<Rightarrow>
              (case route_userId ''unknown'' a of
                 None \<Rightarrow> TextResponse 500 ''Failed to list sessions''
               | Some uid \<Rightarrow>
                   (if \<not> dbUp env then TextResponse 500 ''Failed to list sessions''
                    else
                      (case (page_of qs, pageSize_of qs) of
                         (Some p, Some ps) \<Rightarrow>
                           JsonResponse (ListJson
                             \<lparr>items = map to_item (filter listable (find_page (list_filter uid q) p ps st)),
                              page = p,
                              total = length (filter (list_filter uid q) st),
                              totalPages = totalPages_of (length (filter (list_filter uid q) st)) ps\<rparr>)
                       | _ \<Rightarrow> TextResponse 500 ''Failed to list sessions'')))))"

subsection \<open>Creation\<close>

record ModelConfig =
  cfg_model :: "string option"
  cfg_temperature :: "real option"
  cfg_topP :: "real option"
  cfg_maxTokens :: "real option"

record CreateChatSessionRequest =
  create_title :: "string option"
  create_messages :: "ChatMessage list option"
  create_config :: "ModelConfig option"

text \<open>
  \<open>title || (messages.find(m => m.role === 'user')?.content?.slice(0, 60) || 'New Chat')\<close>
\<close>

definition create_title_of :: "string option \<Rightarrow> ChatMessage list \<Rightarrow> string" where
  "create_title_of t ms =
     or_else t
       (or_else (map_option (\<lambda>m. take 60 (content m)) (List.find (\<lambda>m. role m = User) ms))
          ''New Chat'')"

text \<open>
  \<open>POST /api/sessions\<close>. The field \<open>messages\<close> is absent (\<open>None\<close>, and then
  defaults to the empty array) or an array, as its type declares; a \<open>null\<close> there is
  not modelled.
\<close>

definition POST_sessions ::
  "sessions_env \<Rightarrow> CreateChatSessionRequest option \<Rightarrow> store \<Rightarrow> response \<times> store" where
  "POST_sessions env body st =
     (case body of
        None \<Rightarrow> (TextResponse 400 ''Invalid JSON'', st)
      | Some b \<Rightarrow>
          (case create_config b of
             None \<Rightarrow> (TextResponse 400 ''Missing config.model'', st)
           | Some config \<Rightarrow>
               (if \<not> truthy (cfg_model config) then (TextResponse 400 ''Missing config.model'', st)
                else
                  (case session env of
                     None \<Rightarrow> (TextResponse 401 ''Unauthorized'', st)
                   | Some a \<Rightarrow>
                       (case route_userId ''unknown'' a of
                          None \<Rightarrow> (TextResponse 500 ''Failed to create'', st)
                        | Some uid \<Rightarrow>
                            (if \<not> dbUp env then (TextResponse 500 ''Failed to create'', st)
                             else
                               (let ms = (case create_messages b of None \<Rightarrow> [] | Some l \<Rightarrow> l)
                                in (JsonResponse (IdJson (uuid env)),
                                    insertOne
                                      \<lparr>sessionId = uuid env,
                                       title = create_title_of (create_title b) ms,
                                       messages = ms,
                                       model = or_else (cfg_model config) [],
                                       temperature = cfg_temperature config,
                                       topP = cfg_topP config,
                                       maxTokens = cfg_maxTokens config,
                                       userId = Some uid,
                                       createdAt = now env, updatedAt = now env\<rparr> st))))))))"

subsection \<open>Deletion\<close>

text \<open>\<open>DELETE /api/sessions?id=...\<close>; the argument is \<open>searchParams.get('id')\<close>.\<close>

definition DELETE_sessions :: "sessions_env \<Rightarrow> string option \<Rightarrow> store \<Rightarrow> response \<times> store" where
  "DELETE_sessions env ident st =
     (if \<not> truthy ident then (TextResponse 400 ''Missing id'', st)
      else
        (case session env of
           None \<Rightarrow> (TextResponse 401 ''Unauthorized'', st)
         | Some a \<Rightarrow>
             (case route_userId ''__'' a of
                None \<Rightarrow> (TextResponse 500 ''Failed to delete'', st)
              | Some uid \<Rightarrow>
                  (if \<not> dbUp env then (TextResponse 500 ''Failed to delete'', st)
                   else (EmptyResponse 204,
                         deleteOne (by_session_user (or_else ident []) uid) st)))))"

subsection \<open>Partial update\<close>

record PatchBody =
  patch_sessionId :: "string option"
  patch_title :: "string option"
  patch_messages :: "ChatMessage list option"
  patch_model :: "string option"
  patch_temperature :: "real option"
  patch_topP :: "real option"
  patch_maxTokens :: "real option"

text \<open>The object \<open>update\<close>: \<open>updatedAt\<close>, and the keys the guards let through.\<close>

record update_set =
  set_updatedAt :: string
  set_title :: "string option"
  set_messages :: "ChatMessage list option"
  set_model :: "string option"
  set_temperature :: "real option"
  set_topP :: "real option"
  set_maxTokens :: "real option"

definition build_update :: "string \<Rightarrow> PatchBody \<Rightarrow> update_set" where
  "build_update nowIso b =
     \<lparr>set_updatedAt = nowIso,
      set_title = (if truthy (patch_title b) then patch_title b else None),
      set_messages = patch_messages b,
      set_model = (if truthy (patch_model b) then patch_model b else None),
      set_temperature = patch_temperature b,
      set_topP = patch_topP b,
      set_maxTokens = patch_maxTokens b\<rparr>"

text \<open>\<open>{ $set: update }\<close>: each key of \<open>update\<close> overwrites the field of that name.\<close>

definition apply_set :: "update_set \<Rightarrow> StoredChatSession \<Rightarrow> StoredChatSession" where
  "apply_set u d =
     d\<lparr>updatedAt := set_updatedAt u,
       title := (case set_title u of None \<Rightarrow> title d | Some t \<Rightarrow> t),
       messages := (case set_messages u of None \<Rightarrow> messages d | Some m \<Rightarrow> m),
       model := (case set_model u of None \<Rightarrow> model d | Some m \<Rightarrow> m),
       temperature := (case set_temperature u of None \<Rightarrow> temperature d | Some x \<Rightarrow> Some x),
       topP := (case set_topP u of None \<Rightarrow> topP d | Some x \<Rightarrow> Some x),
       maxTokens := (case set_maxTokens u of None \<Rightarrow> maxTokens d | Some x \<Rightarrow> Some x)\<rparr>"

text \<open>\<open>PATCH /api/sessions\<close>\<close>

definition PATCH_sessions :: "sessions_env \<Rightarrow> PatchBody option \<Rightarrow> store \<Rightarrow> response \<times> store" where
  "PATCH_sessions env body st =
     (case body of
        None \<Rightarrow> (TextResponse 400 ''Invalid JSON'', st)
      | Some b \<Rightarrow>
          (if \<not> truthy (patch_sessionId b) then (TextResponse 400 ''Missing sessionId'', st)
           else
             (case session env of
                None \<Rightarrow> (TextResponse 401 ''Unauthorized'', st)
              | Some a \<Rightarrow>
                  (case route_userId ''__'' a of
                     None \<Rightarrow> (TextResponse 500 ''Failed to update'', st)
                   | Some uid \<Rightarrow>
                       (if \<not> dbUp env then (TextResponse 500 ''Failed to update'', st)
                        else (EmptyResponse 204,
                              updateOne (by_session_user (or_else (patch_sessionId b) []) uid)
                                (apply_set (build_update (now env) b)) st))))))"

section \<open>One session (src/app/api/sessions/[id]/route.ts)\<close>

text \<open>\<open>GET /api/sessions/[id]\<close>\<close>

definition GET_session :: "sessions_env \<Rightarrow> string \<Rightarrow> store \<Rightarrow> response" where
  "GET_session env ident st =
     (if ident = [] then TextResponse 400 ''Missing id''
      else
        (case session env of
           None \<Rightarrow> TextResponse 401 ''Unauthorized''
         | Some a \<Rightarrow>
             (case route_userId ''__'' a of
                None \<Rightarrow> TextResponse 500 ''Failed to fetch''
              | Some uid \<Rightarrow>
                  (if \<not> dbUp env then TextResponse 500 ''Failed to fetch''
                   else
                     (case findOne (by_session_user ident uid) st of
                        None \<Rightarrow> TextResponse 404 ''Not found''
                      | Some doc \<Rightarrow> JsonResponse (DocJson doc))))))"

section \<open>The relay: validation, completion, failure\<close>

lemma for_await_chunks:
  "for_await (map Chunk texts @ evs) s =
     for_await evs
       (s\<lparr>tokenCount := tokenCount s + length (filter (\<lambda>t. t \<noteq> []) texts),
          finalText := finalText s @ concat texts,
          enqueued := enqueued s @ map (\<lambda>t. Data (Token t)) (filter (\<lambda>t. t \<noteq> []) texts)\<rparr>)"
  by (induction texts arbitrary: s) simp_all

lemma start_completes:
  "fst (start env (map Chunk texts) sid uid st) =
     \<lparr>queue = map (\<lambda>t. Data (Token t)) (filter (\<lambda>t. t \<noteq> []) texts)
         @ [Data (Meta (length (filter (\<lambda>t. t \<noteq> []) texts)) (finished env - started env)), Done],
      closed = True\<rparr>"
  using for_await_chunks [of texts "[]"]
  by (simp add: start_def Let_def split: option.splits)

lemma start_fails:
  "start env (map Chunk texts @ Throw (Value e) # rest) sid uid st =
     (\<lparr>queue = map (\<lambda>t. Data (Token t)) (filter (\<lambda>t. t \<noteq> []) texts)
         @ [Data (Error (or_else e ''stream error''))],
      closed = True\<rparr>, st, [])"
  by (simp add: start_def for_await_chunks)

lemma start_fails_nullish:
  "start env (map Chunk texts @ Throw Nullish # rest) sid uid st =
     (\<lparr>queue = map (\<lambda>t. Data (Token t)) (filter (\<lambda>t. t \<noteq> []) texts), closed = True\<rparr>,
      st, [])"
  by (simp add: start_def for_await_chunks)

lemma relay_stream:
  "gemini env = Stream evs \<Longrightarrow>
   relay env b ms mdl st =
     (let r = start env evs (req_sessionId b) (chat_userId (authSession env))
                (fst (pre_step env b ms mdl st))
      in \<lparr>chat_response = StreamResponse (fst r), chat_store = fst (snd r),
          chat_calls =
            [GetServerSession] @ snd (pre_step env b ms mdl st) @ [StreamGemini] @ snd (snd r)\<rparr>)"
  by (simp add: relay_def Let_def split: prod.splits)

lemma POST_chat_valid:
  "req_messages b = Array ms \<Longrightarrow> req_model b = Some mdl \<Longrightarrow> mdl \<noteq> [] \<Longrightarrow>
   POST_chat env (Some b) st = relay env b ms mdl st"
  by (simp add: POST_chat_def)

text \<open>
  C5. A chat-stream request whose \<open>messages\<close> field is not an array, or whose
  \<open>model\<close> is absent (or empty), is answered 400 at once: the response is a plain
  text response, not a stream, the store is as it was, and no collaborator was called
  (neither the session lookup, nor the store, nor the upstream service).
\<close>

theorem validation_rejects_before_any_call:
  assumes "req_messages b = NoArray \<or> req_model b = None \<or> req_model b = Some []"
  shows "POST_chat env (Some b) st =
     \<lparr>chat_response = TextResponse 400 ''Missing required fields'',
      chat_store = st, chat_calls = []\<rparr>"
  using assms by (auto simp: POST_chat_def split: messages_field.splits option.splits)

theorem validation_rejects_before_any_call_witness:
  "POST_chat
     \<lparr>started = 0, authSession = None, preDb = True, preNowIso = ''t0'',
      gemini = Stream [Chunk ''Hi''], finished = 5, postDb = True, postNowIso = ''t1''\<rparr>
     (Some \<lparr>req_messages = NoArray, req_model = Some ''m'', req_temperature = None,
            req_topP = None, req_maxTokens = None, req_sessionId = Some ''s1''\<rparr>)
     []
   = \<lparr>chat_response = TextResponse 400 ''Missing required fields'',
      chat_store = [], chat_calls = []\<rparr>"
  using validation_rejects_before_any_call
    [of "\<lparr>req_messages = NoArray, req_model = Some ''m'', req_temperature = None,
          req_topP = None, req_maxTokens = None, req_sessionId = Some ''s1''\<rparr>"
        "\<lparr>started = 0, authSession = None, preDb = True, preNowIso = ''t0'',
          gemini = Stream [Chunk ''Hi''], finished = 5, postDb = True, postNowIso = ''t1''\<rparr>"
        "[]"]
  by simp

text \<open>
  C1, as stated, fails: a fragment whose text is empty is not relayed. With the single
  fragment \<open>''\<close> the output is the meta envelope with count 0 and the sentinel, not
  a token envelope followed by a meta envelope with count 1.
\<close>

theorem empty_fragment_not_relayed_counterexample:
  "chat_response
     (POST_chat
        \<lparr>started = 0, authSession = None, preDb = True, preNowIso = ''t0'',
         gemini = Stream [Chunk []], finished = 5, postDb = True, postNowIso = ''t1''\<rparr>
        (Some \<lparr>req_messages = Array [\<lparr>role = User, content = ''hi''\<rparr>], req_model = Some ''m'',
               req_temperature = None, req_topP = None, req_maxTokens = None,
               req_sessionId = None\<rparr>)
        [])
   = StreamResponse \<lparr>queue = [Data (Meta 0 5), Done], closed = True\<rparr>
   \<and> chat_response
     (POST_chat
        \<lparr>started = 0, authSession = None, preDb = True, preNowIso = ''t0'',
         gemini = Stream [Chunk []], finished = 5, postDb = True, postNowIso = ''t1''\<rparr>
        (Some \<lparr>req_messages = Array [\<lparr>role = User, content = ''hi''\<rparr>], req_model = Some ''m'',
               req_temperature = None, req_topP = None, req_maxTokens = None,
               req_sessionId = None\<rparr>)
        [])
   \<noteq> StreamResponse \<lparr>queue = [Data (Token []), Data (Meta 1 5), Done], closed = True\<rparr>"
  by (simp add: POST_chat_def relay_def pre_step_def start_def)

text \<open>
  C1, amended. When the upstream service yields the fragments \<open>texts\<close> and then
  completes, the output of the relay is exactly: one token envelope for each fragment
  whose text is not empty, in order; then one meta envelope whose count is the number of
  those token envelopes and whose elapsed time is the end time minus the start time;
  then the sentinel; and the output is closed.
\<close>

theorem normal_completion_output:
  assumes "req_messages b = Array ms" and "req_model b = Some mdl" and "mdl \<noteq> []"
    and "gemini env = Stream (map Chunk texts)"
  shows "chat_response (POST_chat env (Some b) st) =
     StreamResponse
       \<lparr>queue = map (\<lambda>t. Data (Token t)) (filter (\<lambda>t. t \<noteq> []) texts)
          @ [Data (Meta (length (filter (\<lambda>t. t \<noteq> []) texts)) (finished env - started env)),
             Done],
        closed = True\<rparr>"
  using assms by (simp add: POST_chat_valid relay_stream Let_def start_completes)

theorem normal_completion_output_witness:
  "chat_response
     (POST_chat
        \<lparr>started = 100, authSession = None, preDb = True, preNowIso = ''t0'',
         gemini = Stream (map Chunk [''Hel'', [], ''lo'']), finished = 105, postDb = True,
         postNowIso = ''t1''\<rparr>
        (Some \<lparr>req_messages = Array [\<lparr>role = User, content = ''hi''\<rparr>], req_model = Some ''m'',
               req_temperature = None, req_topP = None, req_maxTokens = None,
               req_sessionId = None\<rparr>)
        [])
   = StreamResponse
       \<lparr>queue = [Data (Token ''Hel''), Data (Token ''lo''), Data (Meta 2 5), Done],
        closed = True\<rparr>"
  using normal_completion_output
    [of "\<lparr>req_messages = Array [\<lparr>role = User, content = ''hi''\<rparr>], req_model = Some ''m'',
          req_temperature = None, req_topP = None, req_maxTokens = None,
          req_sessionId = None\<rparr>"
        "[\<lparr>role = User, content = ''hi''\<rparr>]" "''m''"
        "\<lparr>started = 100, authSession = None, preDb = True, preNowIso = ''t0'',
          gemini = Stream (map Chunk [''Hel'', [], ''lo'']), finished = 105, postDb = True,
          postNowIso = ''t1''\<rparr>"
        "[''Hel'', [], ''lo'']" "[]"]
  by simp

lemma pre_step_calls: "StreamGemini \<notin> set (snd (pre_step env b ms mdl st))"
  by (auto simp: pre_step_def create_or_append_def split: option.splits)

text \<open>
  C2, as stated, fails twice on one run: the upstream service yields one fragment with
  an empty text and then fails with an error object whose message is empty. The output is
  the single error envelope with the text \<open>stream error\<close>, not a token envelope
  followed by an error envelope carrying the (empty) message.
\<close>

theorem failure_output_counterexample:
  "chat_response
     (POST_chat
        \<lparr>started = 0, authSession = None, preDb = True, preNowIso = ''t0'',
         gemini = Stream [Chunk [], Throw (Value (Some []))], finished = 5, postDb = True,
         postNowIso = ''t1''\<rparr>
        (Some \<lparr>req_messages = Array [\<lparr>role = User, content = ''hi''\<rparr>], req_model = Some ''m'',
               req_temperature = None, req_topP = None, req_maxTokens = None,
               req_sessionId = None\<rparr>)
        [])
   = StreamResponse \<lparr>queue = [Data (Error ''stream error'')], closed = True\<rparr>
   \<and> chat_response
     (POST_chat
        \<lparr>started = 0, authSession = None, preDb = True, preNowIso = ''t0'',
         gemini = Stream [Chunk [], Throw (Value (Some []))], finished = 5, postDb = True,
         postNowIso = ''t1''\<rparr>
        (Some \<lparr>req_messages = Array [\<lparr>role = User, content = ''hi''\<rparr>], req_model = Some ''m'',
               req_temperature = None, req_topP = None, req_maxTokens = None,
               req_sessionId = None\<rparr>)
        [])
   \<noteq> StreamResponse \<lparr>queue = [Data (Token []), Data (Error [])], closed = True\<rparr>"
  by (simp add: POST_chat_def relay_def pre_step_def start_def)

text \<open>
  C2, amended. When the upstream service fails during iteration after the fragments
  \<open>texts\<close>, and the value thrown is not \<open>null\<close> or \<open>undefined\<close>, the output of the
  relay is exactly: one token envelope for each of those
  fragments whose text is not empty, in order; then one error envelope carrying the
  failure's message, or the fixed text \<open>stream error\<close> when the failure has no message
  or an empty one; no meta envelope and no sentinel; and the output is closed. The
  store is left as the pre-step left it, and the upstream service was invoked exactly
  once: the calls are the session lookup, those of the pre-step, and one upstream
  invocation.
\<close>

theorem upstream_failure_output:
  assumes "req_messages b = Array ms" and "req_model b = Some mdl" and "mdl \<noteq> []"
    and "gemini env = Stream (map Chunk texts @ Throw (Value e) # rest)"
  shows "\<exists>q. chat_response (POST_chat env (Some b) st) = StreamResponse \<lparr>queue = q, closed = True\<rparr>
      \<and> q = map (\<lambda>t. Data (Token t)) (filter (\<lambda>t. t \<noteq> []) texts)
          @ [Data (Error (case e of None \<Rightarrow> ''stream error''
                          | Some m \<Rightarrow> if m \<noteq> [] then m else ''stream error''))]
      \<and> Done \<notin> set q \<and> (\<forall>n t. Data (Meta n t) \<notin> set q)
      \<and> chat_store (POST_chat env (Some b) st) = fst (pre_step env b ms mdl st)
      \<and> chat_calls (POST_chat env (Some b) st) =
          [GetServerSession] @ snd (pre_step env b ms mdl st) @ [StreamGemini]
      \<and> length (filter (\<lambda>c. c = StreamGemini) (chat_calls (POST_chat env (Some b) st))) = 1"
proof -
  have n: "filter (\<lambda>c. c = StreamGemini) (snd (pre_step env b ms mdl st)) = []"
    using pre_step_calls [of env b ms mdl st] by (auto simp: filter_empty_conv)
  show ?thesis
    using assms n
    by (cases e) (auto simp: POST_chat_valid relay_stream Let_def start_fails)
qed

theorem upstream_failure_output_witness:
  "chat_response
     (POST_chat
        \<lparr>started = 100, authSession = None, preDb = True, preNowIso = ''t0'',
          gemini = Stream (map Chunk [''Hel'', []] @ Throw (Value (Some ''boom'')) # [Chunk ''lo'']),
          finished = 105, postDb = True, postNowIso = ''t1''\<rparr>
        (Some \<lparr>req_messages = Array [\<lparr>role = User, content = ''hi''\<rparr>], req_model = Some ''m'',
          req_temperature = None, req_topP = None, req_maxTokens = None,
          req_sessionId = None\<rparr>)
        [])
   = StreamResponse \<lparr>queue = [Data (Token ''Hel''), Data (Error ''boom'')], closed = True\<rparr>"
proof -
  let ?b = "\<lparr>req_messages = Array [\<lparr>role = User, content = ''hi''\<rparr>], req_model = Some ''m'',
          req_temperature = None, req_topP = None, req_maxTokens = None,
          req_sessionId = None\<rparr>"
  let ?env = "\<lparr>started = 100, authSession = None, preDb = True, preNowIso = ''t0'',
          gemini = Stream (map Chunk [''Hel'', []] @ Throw (Value (Some ''boom'')) # [Chunk ''lo'']),
          finished = 105, postDb = True, postNowIso = ''t1''\<rparr>"
  have h1: "req_messages ?b = Array [\<lparr>role = User, content = ''hi''\<rparr>]" by simp
  have h2: "req_model ?b = Some ''m''" by simp
  have h3: "''m'' \<noteq> []" by simp
  have h4: "gemini ?env = Stream (map Chunk [''Hel'', []] @ Throw (Value (Some ''boom'')) # [Chunk ''lo''])"
    by simp
  from upstream_failure_output [OF h1 h2 h3 h4, of "[]"]
  show ?thesis by auto
qed

section \<open>The reconciler around the relay\<close>

lemma token_payloads_tokens:
  "token_payloads (map (\<lambda>t. Data (Token t)) ts @ ls) = ts @ token_payloads ls"
  by (induction ts) simp_all

lemma concat_nonempty: "concat (filter (\<lambda>t. t \<noteq> []) texts) = concat texts"
  by (induction texts) simp_all

lemma findOne_updateOne:
  "(\<And>d. f d \<Longrightarrow> f (u d)) \<Longrightarrow> findOne f (updateOne f u st) = map_option u (findOne f st)"
  by (induction st) simp_all

lemma by_session_user_push_user [simp]:
  "by_session_user sid uid (push_user m n b mdl d) = by_session_user sid uid d"
  by (simp add: by_session_user_def push_user_def)

lemma by_session_user_push_assistant [simp]:
  "by_session_user sid uid (push_assistant t n d) = by_session_user sid uid d"
  by (simp add: by_session_user_def push_assistant_def)

lemma findOne_push_assistant:
  "findOne (by_session_user sid uid)
     (updateOne (by_session_user sid uid) (push_assistant t n) st)
   = map_option (push_assistant t n) (findOne (by_session_user sid uid) st)"
  by (rule findOne_updateOne) simp

lemma findOne_push_user:
  "findOne (by_session_user sid uid)
     (updateOne (by_session_user sid uid) (push_user m n b mdl) st)
   = map_option (push_user m n b mdl) (findOne (by_session_user sid uid) st)"
  by (rule findOne_updateOne) simp

lemma lastUser_decomp:
  assumes "role m = User" and "\<forall>y\<in>set ys. role y \<noteq> User"
  shows "lastUser (xs @ m # ys) = Some m"
proof -
  have "List.find (\<lambda>m. role m = User) (rev ys @ zs) = List.find (\<lambda>m. role m = User) zs" for zs
    using assms(2) by (induction ys arbitrary: zs) simp_all
  then show ?thesis using assms(1) by (simp add: lastUser_def)
qed

lemma pre_step_existing:
  assumes "req_sessionId b = Some sid" and "sid \<noteq> []"
    and "chat_userId (authSession env) = Some uid"
    and "findOne (by_session_user sid uid) st = Some d0"
  shows "\<exists>d1. findOne (by_session_user sid uid) (fst (pre_step env b ms mdl st)) = Some d1"
  using assms
  by (auto simp: pre_step_def create_or_append_def findOne_push_user split: option.splits)

lemma pre_step_appends:
  assumes "req_sessionId b = Some sid" and "sid \<noteq> []"
    and "chat_userId (authSession env) = Some uid" and "preDb env"
    and "findOne (by_session_user sid uid) st = Some d0"
    and "lastUser ms = Some m"
  shows "findOne (by_session_user sid uid) (fst (pre_step env b ms mdl st))
     = Some (push_user m (preNowIso env) b mdl d0)"
  using assms
  by (auto simp: pre_step_def create_or_append_def findOne_push_user split: option.splits)

lemma start_post_step:
  assumes "sid \<noteq> []" and "postDb env"
  shows "start env (map Chunk texts) (Some sid) (Some uid) st =
     (\<lparr>queue = map (\<lambda>t. Data (Token t)) (filter (\<lambda>t. t \<noteq> []) texts)
         @ [Data (Meta (length (filter (\<lambda>t. t \<noteq> []) texts)) (finished env - started env)), Done],
       closed = True\<rparr>,
      updateOne (by_session_user sid uid) (push_assistant (concat texts) (postNowIso env)) st,
      [ChatsCollection, UpdateOne])"
  using assms for_await_chunks [of texts "[]"]
  by (simp add: start_def Let_def)

text \<open>
  C3, as stated, fails: the append branch pushes the last user message without
  looking at the stored messages. Here the stored session already ends with the user
  message \<open>hi\<close>; after one completed turn with the same sequence it holds that
  message twice, then the assistant's reply.
\<close>

theorem pre_step_duplicates_counterexample:
  "map messages
     (chat_store
        (POST_chat
           \<lparr>started = 0,
            authSession = Some \<lparr>user = Some \<lparr>id' = Some ''u1'', email = None\<rparr>\<rparr>,
            preDb = True, preNowIso = ''t1'', gemini = Stream [Chunk ''ok''], finished = 5,
            postDb = True, postNowIso = ''t2''\<rparr>
           (Some \<lparr>req_messages = Array [\<lparr>role = User, content = ''hi''\<rparr>],
                  req_model = Some ''m'', req_temperature = None, req_topP = None,
                  req_maxTokens = None, req_sessionId = Some ''s1''\<rparr>)
           [\<lparr>sessionId = ''s1'', title = ''hi'', messages = [\<lparr>role = User, content = ''hi''\<rparr>],
             model = ''m'', temperature = None, topP = None, maxTokens = None,
             userId = Some ''u1'', createdAt = ''t0'', updatedAt = ''t0''\<rparr>]))
   = [[\<lparr>role = User, content = ''hi''\<rparr>, \<lparr>role = User, content = ''hi''\<rparr>,
       \<lparr>role = Assistant, content = ''ok''\<rparr>]]
   \<and> map messages
     (chat_store
        (POST_chat
           \<lparr>started = 0,
            authSession = Some \<lparr>user = Some \<lparr>id' = Some ''u1'', email = None\<rparr>\<rparr>,
            preDb = True, preNowIso = ''t1'', gemini = Stream [Chunk ''ok''], finished = 5,
            postDb = True, postNowIso = ''t2''\<rparr>
           (Some \<lparr>req_messages = Array [\<lparr>role = User, content = ''hi''\<rparr>],
                  req_model = Some ''m'', req_temperature = None, req_topP = None,
                  req_maxTokens = None, req_sessionId = Some ''s1''\<rparr>)
           [\<lparr>sessionId = ''s1'', title = ''hi'', messages = [\<lparr>role = User, content = ''hi''\<rparr>],
             model = ''m'', temperature = None, topP = None, maxTokens = None,
             userId = Some ''u1'', createdAt = ''t0'', updatedAt = ''t0''\<rparr>]))
   \<noteq> [[\<lparr>role = User, content = ''hi''\<rparr>, \<lparr>role = Assistant, content = ''ok''\<rparr>]]"
  by (simp add: POST_chat_def relay_def pre_step_def create_or_append_def start_def
      chat_userId_def by_session_user_def lastUser_def push_user_def push_assistant_def)

text \<open>
  C3, amended. For an authenticated request with a session identifier whose document
  exists, and a store that can be reached: the pre-step appends the most recent
  user-role message \<open>m\<close> of the supplied sequence to the stored messages, whatever
  the stored messages end with, and refreshes \<open>updatedAt\<close> and the configuration; a
  completed turn appends exactly \<open>m\<close> and then one assistant message; and a pre-step
  that runs twice appends \<open>m\<close> twice.
\<close>

theorem pre_step_appends_last_user:
  assumes "req_messages b = Array ms" and "req_model b = Some mdl" and "mdl \<noteq> []"
    and "req_sessionId b = Some sid" and "sid \<noteq> []"
    and "chat_userId (authSession env) = Some uid"
    and "preDb env" and "postDb env" and "gemini env = Stream (map Chunk texts)"
    and "findOne (by_session_user sid uid) st = Some d0"
    and "ms = xs @ m # ys" and "role m = User" and "\<forall>y\<in>set ys. role y \<noteq> User"
  shows "findOne (by_session_user sid uid) (fst (pre_step env b ms mdl st))
       = Some (d0\<lparr>messages := messages d0 @ [m], updatedAt := preNowIso env, model := mdl,
                  temperature := req_temperature b, topP := req_topP b,
                  maxTokens := req_maxTokens b\<rparr>)
     \<and> (\<exists>d2. findOne (by_session_user sid uid) (chat_store (POST_chat env (Some b) st)) = Some d2
          \<and> messages d2 = messages d0 @ [m, \<lparr>role = Assistant, content = concat texts\<rparr>])
     \<and> (\<exists>d3. findOne (by_session_user sid uid)
                 (fst (pre_step env b ms mdl (fst (pre_step env b ms mdl st)))) = Some d3
          \<and> messages d3 = messages d0 @ [m, m])"
proof -
  have lu: "lastUser ms = Some m"
    using assms(11-13) by (simp add: lastUser_decomp)
  have p1: "findOne (by_session_user sid uid) (fst (pre_step env b ms mdl st))
      = Some (push_user m (preNowIso env) b mdl d0)"
    using assms(4,5,6,7,10) lu by (rule pre_step_appends)
  have p2: "findOne (by_session_user sid uid)
       (fst (pre_step env b ms mdl (fst (pre_step env b ms mdl st))))
      = Some (push_user m (preNowIso env) b mdl (push_user m (preNowIso env) b mdl d0))"
    using assms(4,5,6,7) p1 lu by (rule pre_step_appends)
  have r: "POST_chat env (Some b) st = relay env b ms mdl st"
    using assms(1-3) by (rule POST_chat_valid)
  have p3: "findOne (by_session_user sid uid) (chat_store (POST_chat env (Some b) st))
      = Some (push_assistant (concat texts) (postNowIso env)
                (push_user m (preNowIso env) b mdl d0))"
    using assms(4,5,6,8,9) p1
    by (simp add: r relay_stream start_post_step findOne_push_assistant)
  show ?thesis
    using p1 p2 p3 by (simp add: push_user_def push_assistant_def)
qed

theorem pre_step_appends_last_user_witness:
  "findOne (by_session_user ''s1'' ''u1'')
     (fst (pre_step
        \<lparr>started = 0,
         authSession = Some \<lparr>user = Some \<lparr>id' = Some ''u1'', email = None\<rparr>\<rparr>,
         preDb = True, preNowIso = ''t1'', gemini = Stream (map Chunk [''o'', ''k'']),
         finished = 5, postDb = True, postNowIso = ''t2''\<rparr>
        \<lparr>req_messages = Array [\<lparr>role = User, content = ''hi''\<rparr>, \<lparr>role = Assistant, content = ''yo''\<rparr>,
                                \<lparr>role = User, content = ''more''\<rparr>],
         req_model = Some ''m2'', req_temperature = Some 1, req_topP = None,
         req_maxTokens = None, req_sessionId = Some ''s1''\<rparr>
        [\<lparr>role = User, content = ''hi''\<rparr>, \<lparr>role = Assistant, content = ''yo''\<rparr>,
         \<lparr>role = User, content = ''more''\<rparr>]
        ''m2''
        [\<lparr>sessionId = ''s1'', title = ''hi'',
          messages = [\<lparr>role = User, content = ''hi''\<rparr>, \<lparr>role = Assistant, content = ''yo''\<rparr>],
          model = ''m'', temperature = None, topP = None, maxTokens = None,
          userId = Some ''u1'', createdAt = ''t0'', updatedAt = ''t0''\<rparr>]))
   = Some \<lparr>sessionId = ''s1'', title = ''hi'',
          messages = [\<lparr>role = User, content = ''hi''\<rparr>, \<lparr>role = Assistant, content = ''yo''\<rparr>,
                      \<lparr>role = User, content = ''more''\<rparr>],
          model = ''m2'', temperature = Some 1, topP = None, maxTokens = None,
          userId = Some ''u1'', createdAt = ''t0'', updatedAt = ''t1''\<rparr>"
proof -
  let ?b = "\<lparr>req_messages = Array [\<lparr>role = User, content = ''hi''\<rparr>, \<lparr>role = Assistant, content = ''yo''\<rparr>,
                                \<lparr>role = User, content = ''more''\<rparr>],
         req_model = Some ''m2'', req_temperature = Some 1, req_topP = None,
         req_maxTokens = None, req_sessionId = Some ''s1''\<rparr>"
  let ?env = "\<lparr>started = 0,
         authSession = Some \<lparr>user = Some \<lparr>id' = Some ''u1'', email = None\<rparr>\<rparr>,
         preDb = True, preNowIso = ''t1'', gemini = Stream (map Chunk [''o'', ''k'']),
         finished = 5, postDb = True, postNowIso = ''t2''\<rparr>"
  let ?d0 = "\<lparr>sessionId = ''s1'', title = ''hi'',
          messages = [\<lparr>role = User, content = ''hi''\<rparr>, \<lparr>role = Assistant, content = ''yo''\<rparr>],
          model = ''m'', temperature = None, topP = None, maxTokens = None,
          userId = Some ''u1'', createdAt = ''t0'', updatedAt = ''t0''\<rparr>"
  let ?m = "\<lparr>role = User, content = ''more''\<rparr>"
  let ?xs = "[\<lparr>role = User, content = ''hi''\<rparr>, \<lparr>role = Assistant, content = ''yo''\<rparr>]"
  have h1: "req_messages ?b = Array (?xs @ ?m # [])" by simp
  have h2: "req_model ?b = Some ''m2''" by simp
  have h3: "''m2'' \<noteq> []" by simp
  have h4: "req_sessionId ?b = Some ''s1''" by simp
  have h5: "''s1'' \<noteq> []" by simp
  have h6: "chat_userId (authSession ?env) = Some ''u1''" by (simp add: chat_userId_def)
  have h7: "preDb ?env" by simp
  have h8: "postDb ?env" by simp
  have h9: "gemini ?env = Stream (map Chunk [''o'', ''k''])" by simp
  have h10: "findOne (by_session_user ''s1'' ''u1'') [?d0] = Some ?d0"
    by (simp add: by_session_user_def)
  have h11: "?xs @ ?m # [] = ?xs @ ?m # []" by simp
  have h12: "role ?m = User" by simp
  have h13: "\<forall>y\<in>set []. role y \<noteq> User" by simp
  from pre_step_appends_last_user [OF h1 h2 h3 h4 h5 h6 h7 h8 h9 h10 h11 h12 h13]
  show ?thesis by simp
qed

text \<open>
  C10. For a normally completed run of an authenticated request against an existing
  session, with the store reachable in the post-step, where the upstream service
  yields the fragments \<open>texts\<close>: the output is the closed stream made of one token
  envelope for each fragment whose text is not empty, in order, the meta envelope
  counting exactly those, and the sentinel, so that a fragment with an empty text is
  neither relayed nor counted; and the stored document after the run is the document
  as the pre-step left it, with one assistant message appended (and \<open>updatedAt\<close>
  refreshed) whose content is the concatenation, in order, of the data of the token
  envelopes of that stream, which is the concatenation of the non-empty fragments.
\<close>

theorem assistant_message_is_streamed_text:
  assumes "req_messages b = Array ms" and "req_model b = Some mdl" and "mdl \<noteq> []"
    and "req_sessionId b = Some sid" and "sid \<noteq> []"
    and "chat_userId (authSession env) = Some uid"
    and "gemini env = Stream (map Chunk texts)" and "postDb env"
    and "findOne (by_session_user sid uid) st = Some d0"
  shows "\<exists>c d1. chat_response (POST_chat env (Some b) st) = StreamResponse c
      \<and> queue c = map (\<lambda>t. Data (Token t)) (filter (\<lambda>t. t \<noteq> []) texts)
            @ [Data (Meta (length (filter (\<lambda>t. t \<noteq> []) texts)) (finished env - started env)),
               Done]
      \<and> closed c
      \<and> token_payloads (queue c) = filter (\<lambda>t. t \<noteq> []) texts
      \<and> findOne (by_session_user sid uid) (fst (pre_step env b ms mdl st)) = Some d1
      \<and> findOne (by_session_user sid uid) (chat_store (POST_chat env (Some b) st))
        = Some (d1\<lparr>messages := messages d1
                     @ [\<lparr>role = Assistant, content = concat (token_payloads (queue c))\<rparr>],
                   updatedAt := postNowIso env\<rparr>)
      \<and> concat (token_payloads (queue c)) = concat (filter (\<lambda>t. t \<noteq> []) texts)"
proof -
  obtain d1 where d1: "findOne (by_session_user sid uid) (fst (pre_step env b ms mdl st)) = Some d1"
    using pre_step_existing [OF assms(4,5,6,9)] by blast
  have r: "POST_chat env (Some b) st = relay env b ms mdl st"
    using assms(1-3) by (rule POST_chat_valid)
  show ?thesis
    using d1 assms(4-8)
    by (simp add: r relay_stream start_post_step findOne_push_assistant token_payloads_tokens
        concat_nonempty push_assistant_def)
qed

theorem assistant_message_is_streamed_text_witness:
  "chat_response
     (POST_chat
        \<lparr>started = 0,
           authSession = Some \<lparr>user = Some \<lparr>id' = None, email = Some ''a@b.c''\<rparr>\<rparr>,
           preDb = False, preNowIso = ''t1'', gemini = Stream (map Chunk [''o'', [], ''k'']),
           finished = 5, postDb = True, postNowIso = ''t2''\<rparr>
        (Some \<lparr>req_messages = Array [\<lparr>role = User, content = ''hi''\<rparr>],
                 req_model = Some ''m'', req_temperature = None, req_topP = None,
                 req_maxTokens = None, req_sessionId = Some ''s1''\<rparr>)
        [\<lparr>sessionId = ''s1'', title = ''hi'', messages = [],
            model = ''m'', temperature = None, topP = None, maxTokens = None,
            userId = Some ''a@b.c'', createdAt = ''t0'', updatedAt = ''t0''\<rparr>])
   = StreamResponse
       \<lparr>queue = [Data (Token ''o''), Data (Token ''k''), Data (Meta 2 5), Done],
        closed = True\<rparr>
   \<and> findOne (by_session_user ''s1'' ''a@b.c'')
       (chat_store
          (POST_chat
             \<lparr>started = 0,
           authSession = Some \<lparr>user = Some \<lparr>id' = None, email = Some ''a@b.c''\<rparr>\<rparr>,
           preDb = False, preNowIso = ''t1'', gemini = Stream (map Chunk [''o'', [], ''k'']),
           finished = 5, postDb = True, postNowIso = ''t2''\<rparr>
             (Some \<lparr>req_messages = Array [\<lparr>role = User, content = ''hi''\<rparr>],
                 req_model = Some ''m'', req_temperature = None, req_topP = None,
                 req_maxTokens = None, req_sessionId = Some ''s1''\<rparr>)
             [\<lparr>sessionId = ''s1'', title = ''hi'', messages = [],
            model = ''m'', temperature = None, topP = None, maxTokens = None,
            userId = Some ''a@b.c'', createdAt = ''t0'', updatedAt = ''t0''\<rparr>]))
   = Some \<lparr>sessionId = ''s1'', title = ''hi'',
            messages = [\<lparr>role = Assistant, content = ''ok''\<rparr>],
            model = ''m'', temperature = None, topP = None, maxTokens = None,
            userId = Some ''a@b.c'', createdAt = ''t0'', updatedAt = ''t2''\<rparr>"
proof -
  let ?b = "\<lparr>req_messages = Array [\<lparr>role = User, content = ''hi''\<rparr>],
                 req_model = Some ''m'', req_temperature = None, req_topP = None,
                 req_maxTokens = None, req_sessionId = Some ''s1''\<rparr>"
  let ?env = "\<lparr>started = 0,
           authSession = Some \<lparr>user = Some \<lparr>id' = None, email = Some ''a@b.c''\<rparr>\<rparr>,
           preDb = False, preNowIso = ''t1'', gemini = Stream (map Chunk [''o'', [], ''k'']),
           finished = 5, postDb = True, postNowIso = ''t2''\<rparr>"
  let ?d0 = "\<lparr>sessionId = ''s1'', title = ''hi'', messages = [],
            model = ''m'', temperature = None, topP = None, maxTokens = None,
            userId = Some ''a@b.c'', createdAt = ''t0'', updatedAt = ''t0''\<rparr>"
  let ?ms = "[\<lparr>role = User, content = ''hi''\<rparr>]"
  have h1: "req_messages ?b = Array ?ms" by simp
  have h2: "req_model ?b = Some ''m''" by simp
  have h3: "''m'' \<noteq> []" by simp
  have h4: "req_sessionId ?b = Some ''s1''" by simp
  have h5: "''s1'' \<noteq> []" by simp
  have h6: "chat_userId (authSession ?env) = Some ''a@b.c''" by (simp add: chat_userId_def)
  have h7: "gemini ?env = Stream (map Chunk [''o'', [], ''k''])" by simp
  have h8: "postDb ?env" by simp
  have h9: "findOne (by_session_user ''s1'' ''a@b.c'') [?d0] = Some ?d0"
    by (simp add: by_session_user_def)
  have pre: "fst (pre_step ?env ?b ?ms ''m'' [?d0]) = [?d0]"
    by (simp add: pre_step_def create_or_append_def chat_userId_def)
  from assistant_message_is_streamed_text [OF h1 h2 h3 h4 h5 h6 h7 h8 h9]
  obtain c d1 where resp: "chat_response (POST_chat ?env (Some ?b) [?d0]) = StreamResponse c"
    and q: "queue c = map (\<lambda>t. Data (Token t)) (filter (\<lambda>t. t \<noteq> []) [''o'', [], ''k''])
            @ [Data (Meta (length (filter (\<lambda>t. t \<noteq> []) [''o'', [], ''k'']))
                 (finished ?env - started ?env)), Done]"
    and cl: "closed c"
    and d1: "findOne (by_session_user ''s1'' ''a@b.c'') (fst (pre_step ?env ?b ?ms ''m'' [?d0]))
        = Some d1"
    and fin: "findOne (by_session_user ''s1'' ''a@b.c'') (chat_store (POST_chat ?env (Some ?b) [?d0]))
        = Some (d1\<lparr>messages := messages d1
                     @ [\<lparr>role = Assistant, content = concat (token_payloads (queue c))\<rparr>],
                   updatedAt := postNowIso ?env\<rparr>)"
    by blast
  have q': "queue c = [Data (Token ''o''), Data (Token ''k''), Data (Meta 2 5), Done]"
    using q by simp
  have c: "c = \<lparr>queue = [Data (Token ''o''), Data (Token ''k''), Data (Meta 2 5), Done],
      closed = True\<rparr>"
    using q' cl by (cases c) simp
  have "d1 = ?d0"
    using d1 h9 by (simp only: pre) simp
  with resp fin c show ?thesis by simp
qed

section \<open>Deleting and updating sessions\<close>

lemma filter_deleteOne:
  "(\<And>d. f d \<Longrightarrow> \<not> P d) \<Longrightarrow> filter P (deleteOne f st) = filter P st"
  by (induction st) auto

lemma deleteOne_absent: "findOne f st = None \<Longrightarrow> deleteOne f st = st"
  by (induction st) (auto split: if_splits)

lemma DELETE_ok:
  assumes "session env = Some a" and "route_userId ''__'' a = Some uid" and "dbUp env"
    and "ident \<noteq> []"
  shows "DELETE_sessions env (Some ident) st =
     (EmptyResponse 204, deleteOne (by_session_user ident uid) st)"
  using assms by (simp add: DELETE_sessions_def)

lemma filter_others_deleteOne:
  "filter (\<lambda>d. userId d \<noteq> Some uid) (deleteOne (by_session_user ident uid) st)
   = filter (\<lambda>d. userId d \<noteq> Some uid) st"
  by (rule filter_deleteOne) (simp add: by_session_user_def)

text \<open>
  C7. For an authenticated delete request with an identifier (and a store that can be
  reached): the first and the second deletion of the same identifier both answer 204;
  after one and after two deletions the documents of every other owner are exactly
  those of the store before, in the same order and unchanged; and when the caller owns
  no document with that identifier the store is unchanged.
\<close>

theorem delete_succeeds_and_spares_other_owners:
  assumes "session env = Some a" and "route_userId ''__'' a = Some uid" and "dbUp env"
    and "ident \<noteq> []"
  shows "fst (DELETE_sessions env (Some ident) st) = EmptyResponse 204
     \<and> fst (DELETE_sessions env (Some ident) (snd (DELETE_sessions env (Some ident) st)))
         = EmptyResponse 204
     \<and> filter (\<lambda>d. userId d \<noteq> Some uid) (snd (DELETE_sessions env (Some ident) st))
         = filter (\<lambda>d. userId d \<noteq> Some uid) st
     \<and> filter (\<lambda>d. userId d \<noteq> Some uid)
           (snd (DELETE_sessions env (Some ident) (snd (DELETE_sessions env (Some ident) st))))
         = filter (\<lambda>d. userId d \<noteq> Some uid) st
     \<and> (findOne (by_session_user ident uid) st = None
          \<longrightarrow> snd (DELETE_sessions env (Some ident) st) = st)"
  by (simp add: DELETE_ok [OF assms] filter_others_deleteOne deleteOne_absent)

theorem delete_succeeds_and_spares_other_owners_witness:
  "fst (DELETE_sessions
      \<lparr>session = Some \<lparr>user = Some \<lparr>id' = Some ''u1'', email = None\<rparr>\<rparr>, dbUp = True,
       now = ''t9'', uuid = ''x''\<rparr>
      (Some ''s1'')
      [\<lparr>sessionId = ''s1'', title = ''Other'', messages = [],
        model = ''m'', temperature = None, topP = None, maxTokens = None,
        userId = Some ''u2'', createdAt = ''t0'', updatedAt = ''t0''\<rparr>,
       \<lparr>sessionId = ''s1'', title = ''Old'', messages = [\<lparr>role = User, content = ''hi''\<rparr>],
        model = ''m'', temperature = Some 1, topP = None, maxTokens = None,
        userId = Some ''u1'', createdAt = ''t0'', updatedAt = ''t0''\<rparr>])
   = EmptyResponse 204
   \<and> snd (DELETE_sessions
      \<lparr>session = Some \<lparr>user = Some \<lparr>id' = Some ''u1'', email = None\<rparr>\<rparr>, dbUp = True,
       now = ''t9'', uuid = ''x''\<rparr>
      (Some ''s1'')
      [\<lparr>sessionId = ''s1'', title = ''Other'', messages = [],
        model = ''m'', temperature = None, topP = None, maxTokens = None,
        userId = Some ''u2'', createdAt = ''t0'', updatedAt = ''t0''\<rparr>,
       \<lparr>sessionId = ''s1'', title = ''Old'', messages = [\<lparr>role = User, content = ''hi''\<rparr>],
        model = ''m'', temperature = Some 1, topP = None, maxTokens = None,
        userId = Some ''u1'', createdAt = ''t0'', updatedAt = ''t0''\<rparr>])
   = [\<lparr>sessionId = ''s1'', title = ''Other'', messages = [],
        model = ''m'', temperature = None, topP = None, maxTokens = None,
        userId = Some ''u2'', createdAt = ''t0'', updatedAt = ''t0''\<rparr>]"
proof -
  let ?env = "\<lparr>session = Some \<lparr>user = Some \<lparr>id' = Some ''u1'', email = None\<rparr>\<rparr>, dbUp = True,
       now = ''t9'', uuid = ''x''\<rparr>"
  let ?a = "\<lparr>user = Some \<lparr>id' = Some ''u1'', email = None\<rparr>\<rparr>"
  have h1: "session ?env = Some ?a" by simp
  have h2: "route_userId ''__'' ?a = Some ''u1''" by (simp add: route_userId_def)
  have h3: "dbUp ?env" by simp
  have h4: "''s1'' \<noteq> []" by simp
  from delete_succeeds_and_spares_other_owners [OF h1 h2 h3 h4]
  show ?thesis by (simp add: DELETE_sessions_def route_userId_def by_session_user_def)
qed

lemma updateOne_decomp:
  "findOne f st = Some d \<Longrightarrow>
   \<exists>pre post. st = pre @ d # post \<and> (\<forall>x\<in>set pre. \<not> f x) \<and> updateOne f u st = pre @ u d # post"
proof (induction st)
  case Nil
  then show ?case by simp
next
  case (Cons x st)
  show ?case
  proof (cases "f x")
    case True
    with Cons.prems have "x = d" by simp
    with True have "x # st = [] @ d # st \<and> (\<forall>y\<in>set []. \<not> f y) \<and> updateOne f u (x # st) = [] @ u d # st"
      by simp
    then show ?thesis by blast
  next
    case False
    with Cons.prems have "findOne f st = Some d" by simp
    from Cons.IH [OF this] obtain pre post where
      "st = pre @ d # post" "\<forall>y\<in>set pre. \<not> f y" "updateOne f u st = pre @ u d # post"
      by blast
    with False have "x # st = (x # pre) @ d # post \<and> (\<forall>y\<in>set (x # pre). \<not> f y)
        \<and> updateOne f u (x # st) = (x # pre) @ u d # post"
      by simp
    then show ?thesis by blast
  qed
qed

lemma PATCH_ok:
  assumes "session env = Some a" and "route_userId ''__'' a = Some uid" and "dbUp env"
    and "patch_sessionId b = Some sid" and "sid \<noteq> []"
  shows "PATCH_sessions env (Some b) st =
     (EmptyResponse 204,
      updateOne (by_session_user sid uid) (apply_set (build_update (now env) b)) st)"
  using assms by (simp add: PATCH_sessions_def)

lemma apply_set_build_update:
  "apply_set (build_update n b) d =
     \<lparr>sessionId = sessionId d,
      title = (case patch_title b of None \<Rightarrow> title d | Some t \<Rightarrow> if t \<noteq> [] then t else title d),
      messages = (case patch_messages b of None \<Rightarrow> messages d | Some m \<Rightarrow> m),
      model = (case patch_model b of None \<Rightarrow> model d | Some m \<Rightarrow> if m \<noteq> [] then m else model d),
      temperature = (case patch_temperature b of None \<Rightarrow> temperature d | Some x \<Rightarrow> Some x),
      topP = (case patch_topP b of None \<Rightarrow> topP d | Some x \<Rightarrow> Some x),
      maxTokens = (case patch_maxTokens b of None \<Rightarrow> maxTokens d | Some x \<Rightarrow> Some x),
      userId = userId d, createdAt = createdAt d, updatedAt = n\<rparr>"
  by (cases "patch_title b"; cases "patch_model b")
     (simp_all add: apply_set_def build_update_def)

text \<open>
  C6, as stated, fails: a supplied title that is the empty string is not written.
  The request supplies \<open>title = ''\<close> for an owned session titled \<open>Old\<close>; the title
  stored afterwards is still \<open>Old\<close>.
\<close>

theorem patch_empty_title_counterexample:
  "map title
     (snd (PATCH_sessions
        \<lparr>session = Some \<lparr>user = Some \<lparr>id' = Some ''u1'', email = None\<rparr>\<rparr>, dbUp = True,
       now = ''t9'', uuid = ''x''\<rparr>
        (Some \<lparr>patch_sessionId = Some ''s1'', patch_title = Some [], patch_messages = None,
         patch_model = None, patch_temperature = None, patch_topP = None,
         patch_maxTokens = None\<rparr>)
        [\<lparr>sessionId = ''s1'', title = ''Old'', messages = [\<lparr>role = User, content = ''hi''\<rparr>],
        model = ''m'', temperature = Some 1, topP = None, maxTokens = None,
        userId = Some ''u1'', createdAt = ''t0'', updatedAt = ''t0''\<rparr>]))
   = [''Old'']
   \<and> map title
     (snd (PATCH_sessions
        \<lparr>session = Some \<lparr>user = Some \<lparr>id' = Some ''u1'', email = None\<rparr>\<rparr>, dbUp = True,
       now = ''t9'', uuid = ''x''\<rparr>
        (Some \<lparr>patch_sessionId = Some ''s1'', patch_title = Some [], patch_messages = None,
         patch_model = None, patch_temperature = None, patch_topP = None,
         patch_maxTokens = None\<rparr>)
        [\<lparr>sessionId = ''s1'', title = ''Old'', messages = [\<lparr>role = User, content = ''hi''\<rparr>],
        model = ''m'', temperature = Some 1, topP = None, maxTokens = None,
        userId = Some ''u1'', createdAt = ''t0'', updatedAt = ''t0''\<rparr>]))
   \<noteq> [[]]"
  by (simp add: PATCH_sessions_def route_userId_def by_session_user_def apply_set_def
      build_update_def)

text \<open>
  C6, amended. For an authenticated partial update of an owned session (with a store
  that can be reached) the answer is 204, and the store afterwards is the store before
  with the first document owned by the caller under that identifier replaced: its
  \<open>updatedAt\<close> is the current time; \<open>title\<close> and \<open>model\<close> are overwritten when
  supplied and not empty; \<open>messages\<close> when supplied; \<open>temperature\<close>, \<open>topP\<close> and
  \<open>maxTokens\<close> when supplied and not null; every other field of the document, and
  every other document, is as before.
\<close>

theorem patch_overwrites_guarded_fields:
  assumes "session env = Some a" and "route_userId ''__'' a = Some uid" and "dbUp env"
    and "patch_sessionId b = Some sid" and "sid \<noteq> []"
    and "findOne (by_session_user sid uid) st = Some d"
  shows "fst (PATCH_sessions env (Some b) st) = EmptyResponse 204
     \<and> (\<exists>pre post. st = pre @ d # post \<and> (\<forall>x\<in>set pre. \<not> by_session_user sid uid x)
          \<and> snd (PATCH_sessions env (Some b) st) =
              pre @
              \<lparr>sessionId = sessionId d,
               title = (case patch_title b of None \<Rightarrow> title d
                        | Some t \<Rightarrow> if t \<noteq> [] then t else title d),
               messages = (case patch_messages b of None \<Rightarrow> messages d | Some m \<Rightarrow> m),
               model = (case patch_model b of None \<Rightarrow> model d
                        | Some m \<Rightarrow> if m \<noteq> [] then m else model d),
               temperature = (case patch_temperature b of None \<Rightarrow> temperature d | Some x \<Rightarrow> Some x),
               topP = (case patch_topP b of None \<Rightarrow> topP d | Some x \<Rightarrow> Some x),
               maxTokens = (case patch_maxTokens b of None \<Rightarrow> maxTokens d | Some x \<Rightarrow> Some x),
               userId = userId d, createdAt = createdAt d, updatedAt = now env\<rparr>
              # post)"
  using updateOne_decomp [OF assms(6), of "apply_set (build_update (now env) b)"]
  by (simp add: PATCH_ok [OF assms(1-5)] apply_set_build_update)

theorem patch_overwrites_guarded_fields_witness:
  "snd (PATCH_sessions
      \<lparr>session = Some \<lparr>user = Some \<lparr>id' = Some ''u1'', email = None\<rparr>\<rparr>, dbUp = True,
       now = ''t9'', uuid = ''x''\<rparr>
      (Some \<lparr>patch_sessionId = Some ''s1'', patch_title = Some ''New'', patch_messages = None,
         patch_model = None, patch_temperature = Some 0, patch_topP = None,
         patch_maxTokens = None\<rparr>)
      [\<lparr>sessionId = ''s1'', title = ''Other'', messages = [],
        model = ''m'', temperature = None, topP = None, maxTokens = None,
        userId = Some ''u2'', createdAt = ''t0'', updatedAt = ''t0''\<rparr>,
       \<lparr>sessionId = ''s1'', title = ''Old'', messages = [\<lparr>role = User, content = ''hi''\<rparr>],
        model = ''m'', temperature = Some 1, topP = None, maxTokens = None,
        userId = Some ''u1'', createdAt = ''t0'', updatedAt = ''t0''\<rparr>])
   = [\<lparr>sessionId = ''s1'', title = ''Other'', messages = [],
        model = ''m'', temperature = None, topP = None, maxTokens = None,
        userId = Some ''u2'', createdAt = ''t0'', updatedAt = ''t0''\<rparr>,
      \<lparr>sessionId = ''s1'', title = ''New'', messages = [\<lparr>role = User, content = ''hi''\<rparr>],
       model = ''m'', temperature = Some 0, topP = None, maxTokens = None,
       userId = Some ''u1'', createdAt = ''t0'', updatedAt = ''t9''\<rparr>]"
proof -
  let ?env = "\<lparr>session = Some \<lparr>user = Some \<lparr>id' = Some ''u1'', email = None\<rparr>\<rparr>, dbUp = True,
       now = ''t9'', uuid = ''x''\<rparr>"
  let ?a = "\<lparr>user = Some \<lparr>id' = Some ''u1'', email = None\<rparr>\<rparr>"
  let ?b = "\<lparr>patch_sessionId = Some ''s1'', patch_title = Some ''New'', patch_messages = None,
         patch_model = None, patch_temperature = Some 0, patch_topP = None,
         patch_maxTokens = None\<rparr>"
  let ?d = "\<lparr>sessionId = ''s1'', title = ''Old'', messages = [\<lparr>role = User, content = ''hi''\<rparr>],
        model = ''m'', temperature = Some 1, topP = None, maxTokens = None,
        userId = Some ''u1'', createdAt = ''t0'', updatedAt = ''t0''\<rparr>"
  let ?o = "\<lparr>sessionId = ''s1'', title = ''Other'', messages = [],
        model = ''m'', temperature = None, topP = None, maxTokens = None,
        userId = Some ''u2'', createdAt = ''t0'', updatedAt = ''t0''\<rparr>"
  have h1: "session ?env = Some ?a" by simp
  have h2: "route_userId ''__'' ?a = Some ''u1''" by (simp add: route_userId_def)
  have h3: "dbUp ?env" by simp
  have h4: "patch_sessionId ?b = Some ''s1''" by simp
  have h5: "''s1'' \<noteq> []" by simp
  have h6: "findOne (by_session_user ''s1'' ''u1'') [?o, ?d] = Some ?d"
    by (simp add: by_session_user_def)
  from patch_overwrites_guarded_fields [OF h1 h2 h3 h4 h5 h6]
  obtain pre post where pp: "[?o, ?d] = pre @ ?d # post"
    and nf: "\<forall>x\<in>set pre. \<not> by_session_user ''s1'' ''u1'' x"
    and res: "snd (PATCH_sessions ?env (Some ?b) [?o, ?d]) =
        pre @ \<lparr>sessionId = ''s1'', title = ''New'', messages = [\<lparr>role = User, content = ''hi''\<rparr>],
       model = ''m'', temperature = Some 0, topP = None, maxTokens = None,
       userId = Some ''u1'', createdAt = ''t0'', updatedAt = ''t9''\<rparr> # post"
    by auto
  have "pre = [?o] \<and> post = []"
    using pp by (cases pre; cases "tl pre") auto
  with res show ?thesis by simp
qed

section \<open>Reading sessions\<close>

lemma list_filter_owned:
  "filter (list_filter uid q) st
   = filter (list_filter uid q) (filter (\<lambda>d. userId d = Some uid) st)"
  by (induction st) (simp_all add: list_filter_def)

lemma set_insert_desc: "set (insert_desc d ds) = insert d (set ds)"
  by (induction ds) auto

lemma set_sort_desc: "set (sort_desc ds) = set ds"
  by (induction ds) (simp_all add: sort_desc_def set_insert_desc)

lemma to_item_projection: "to_item (projection d) = to_item d"
  by (simp add: to_item_def projection_def)

lemma find_page_subset: "set (find_page f p ps st) \<subseteq> projection ` {d \<in> set st. f d}"
proof -
  have "set (find_page f p ps st) \<subseteq> set (sort_desc (map projection (filter f st)))"
    unfolding find_page_def
    by (meson set_take_subset set_drop_subset subset_trans)
  then show ?thesis by (simp add: set_sort_desc)
qed

lemma findOne_filter:
  "(\<And>d. f d \<Longrightarrow> P d) \<Longrightarrow> findOne f (filter P st) = findOne f st"
  by (induction st) auto

lemma findOne_owned:
  "findOne (by_session_user ident uid) (filter (\<lambda>d. userId d = Some uid) st)
   = findOne (by_session_user ident uid) st"
  by (rule findOne_filter) (simp add: by_session_user_def)

lemma findOne_Some: "findOne f st = Some d \<Longrightarrow> d \<in> set st \<and> f d"
  by (induction st) (auto split: if_splits)

lemma GET_sessions_owned:
  assumes "session env = Some a" and "route_userId ''unknown'' a = Some uid"
  shows "GET_sessions env qs st = GET_sessions env qs (filter (\<lambda>d. userId d = Some uid) st)"
proof -
  have "filter (list_filter uid q) st
      = filter (list_filter uid q) (filter (\<lambda>d. userId d = Some uid) st)" for q
    by (rule list_filter_owned)
  then have "find_page (list_filter uid q) p ps st
      = find_page (list_filter uid q) p ps (filter (\<lambda>d. userId d = Some uid) st)
    \<and> length (filter (list_filter uid q) st)
      = length (filter (list_filter uid q) (filter (\<lambda>d. userId d = Some uid) st))" for q p ps
    unfolding find_page_def by metis
  then show ?thesis
    using assms by (simp add: GET_sessions_def Let_def split: option.splits)
qed

lemma GET_sessions_items:
  assumes "session env = Some a" and "route_userId ''unknown'' a = Some uid"
    and "GET_sessions env qs st = JsonResponse (ListJson r)"
  shows "\<forall>i\<in>set (items r). \<exists>d\<in>set st. userId d = Some uid \<and> to_item d = i"
proof
  fix i assume i: "i \<in> set (items r)"
  from assms obtain p ps where
    r: "items r = map to_item (filter listable
          (find_page (list_filter uid (trim (or_else (q_q qs) []))) p ps st))"
    by (auto simp: GET_sessions_def Let_def split: option.splits if_splits)
  with i obtain x where "x \<in> set (find_page (list_filter uid (trim (or_else (q_q qs) []))) p ps st)"
    and ix: "i = to_item x" by auto
  with find_page_subset obtain d where "d \<in> set st"
    and "list_filter uid (trim (or_else (q_q qs) [])) d" and "x = projection d"
    by blast
  then show "\<exists>d\<in>set st. userId d = Some uid \<and> to_item d = i"
    using ix by (auto simp: list_filter_def to_item_projection)
qed

lemma GET_session_owned:
  assumes "session env = Some a" and "route_userId ''__'' a = Some uid"
  shows "GET_session env ident st = GET_session env ident (filter (\<lambda>d. userId d = Some uid) st)"
  using assms by (simp add: GET_session_def findOne_owned)

lemma GET_session_doc:
  assumes "session env = Some a" and "route_userId ''__'' a = Some uid"
    and "GET_session env ident st = JsonResponse (DocJson d)"
  shows "d \<in> set st \<and> userId d = Some uid \<and> sessionId d = ident"
proof -
  from assms have "findOne (by_session_user ident uid) st = Some d"
    by (auto simp: GET_session_def split: if_splits option.splits)
  from findOne_Some [OF this] show ?thesis by (simp add: by_session_user_def)
qed

text \<open>
  C4. Let the caller's session resolve to the identity \<open>uidL\<close> in the listing and to
  \<open>uidF\<close> in fetch-one (the same identity whenever the session carries an id or an
  e-mail). For any query parameters: two stores with the same documents of that
  identity, in the same order, give the same listing response and the same fetch-one
  response; every item of a listing is the metadata of a stored document owned by
  \<open>uidL\<close>; and a document returned by fetch-one is a stored document owned by \<open>uidF\<close>
  with the requested identifier.
\<close>

theorem reads_are_owner_scoped:
  assumes "session env = Some a"
    and "route_userId ''unknown'' a = Some uidL" and "route_userId ''__'' a = Some uidF"
  shows "(filter (\<lambda>d. userId d = Some uidL) s1 = filter (\<lambda>d. userId d = Some uidL) s2
          \<longrightarrow> GET_sessions env qs s1 = GET_sessions env qs s2)
     \<and> (\<forall>r. GET_sessions env qs s1 = JsonResponse (ListJson r)
          \<longrightarrow> (\<forall>i\<in>set (items r). \<exists>d\<in>set s1. userId d = Some uidL \<and> to_item d = i))
     \<and> (filter (\<lambda>d. userId d = Some uidF) s1 = filter (\<lambda>d. userId d = Some uidF) s2
          \<longrightarrow> GET_session env ident s1 = GET_session env ident s2)
     \<and> (\<forall>d. GET_session env ident s1 = JsonResponse (DocJson d)
          \<longrightarrow> d \<in> set s1 \<and> userId d = Some uidF \<and> sessionId d = ident)"
proof (intro conjI impI allI)
  assume "filter (\<lambda>d. userId d = Some uidL) s1 = filter (\<lambda>d. userId d = Some uidL) s2"
  then show "GET_sessions env qs s1 = GET_sessions env qs s2"
    using GET_sessions_owned [OF assms(1,2), of qs s1] GET_sessions_owned [OF assms(1,2), of qs s2]
    by simp
next
  fix r assume "GET_sessions env qs s1 = JsonResponse (ListJson r)"
  then show "\<forall>i\<in>set (items r). \<exists>d\<in>set s1. userId d = Some uidL \<and> to_item d = i"
    by (rule GET_sessions_items [OF assms(1,2)])
next
  assume "filter (\<lambda>d. userId d = Some uidF) s1 = filter (\<lambda>d. userId d = Some uidF) s2"
  then show "GET_session env ident s1 = GET_session env ident s2"
    using GET_session_owned [OF assms(1,3), of ident s1] GET_session_owned [OF assms(1,3), of ident s2]
    by simp
next
  fix d assume d: "GET_session env ident s1 = JsonResponse (DocJson d)"
  from GET_session_doc [OF assms(1,3) d]
  show "d \<in> set s1" and "userId d = Some uidF" and "sessionId d = ident" by simp_all
qed

theorem reads_are_owner_scoped_witness:
  "GET_sessions
      \<lparr>session = Some \<lparr>user = Some \<lparr>id' = Some ''u1'', email = None\<rparr>\<rparr>, dbUp = True,
       now = ''t9'', uuid = ''x''\<rparr>
      \<lparr>q_page = None, q_pageSize = None, q_q = Some ''o''\<rparr>
      [\<lparr>sessionId = ''s1'', title = ''Other'', messages = [],
        model = ''m'', temperature = None, topP = None, maxTokens = None,
        userId = Some ''u2'', createdAt = ''t0'', updatedAt = ''t0''\<rparr>,
       \<lparr>sessionId = ''s1'', title = ''Old'', messages = [\<lparr>role = User, content = ''hi''\<rparr>],
        model = ''m'', temperature = Some 1, topP = None, maxTokens = None,
        userId = Some ''u1'', createdAt = ''t0'', updatedAt = ''t0''\<rparr>]
   = GET_sessions
      \<lparr>session = Some \<lparr>user = Some \<lparr>id' = Some ''u1'', email = None\<rparr>\<rparr>, dbUp = True,
       now = ''t9'', uuid = ''x''\<rparr>
      \<lparr>q_page = None, q_pageSize = None, q_q = Some ''o''\<rparr>
      [\<lparr>sessionId = ''s1'', title = ''Old'', messages = [\<lparr>role = User, content = ''hi''\<rparr>],
        model = ''m'', temperature = Some 1, topP = None, maxTokens = None,
        userId = Some ''u1'', createdAt = ''t0'', updatedAt = ''t0''\<rparr>]
   \<and> GET_session
      \<lparr>session = Some \<lparr>user = Some \<lparr>id' = Some ''u1'', email = None\<rparr>\<rparr>, dbUp = True,
       now = ''t9'', uuid = ''x''\<rparr>
      ''s1''
      [\<lparr>sessionId = ''s1'', title = ''Other'', messages = [],
        model = ''m'', temperature = None, topP = None, maxTokens = None,
        userId = Some ''u2'', createdAt = ''t0'', updatedAt = ''t0''\<rparr>,
       \<lparr>sessionId = ''s1'', title = ''Old'', messages = [\<lparr>role = User, content = ''hi''\<rparr>],
        model = ''m'', temperature = Some 1, topP = None, maxTokens = None,
        userId = Some ''u1'', createdAt = ''t0'', updatedAt = ''t0''\<rparr>]
   = GET_session
      \<lparr>session = Some \<lparr>user = Some \<lparr>id' = Some ''u1'', email = None\<rparr>\<rparr>, dbUp = True,
       now = ''t9'', uuid = ''x''\<rparr>
      ''s1''
      [\<lparr>sessionId = ''s1'', title = ''Old'', messages = [\<lparr>role = User, content = ''hi''\<rparr>],
        model = ''m'', temperature = Some 1, topP = None, maxTokens = None,
        userId = Some ''u1'', createdAt = ''t0'', updatedAt = ''t0''\<rparr>]"
proof -
  let ?env = "\<lparr>session = Some \<lparr>user = Some \<lparr>id' = Some ''u1'', email = None\<rparr>\<rparr>, dbUp = True,
       now = ''t9'', uuid = ''x''\<rparr>"
  let ?a = "\<lparr>user = Some \<lparr>id' = Some ''u1'', email = None\<rparr>\<rparr>"
  let ?d = "\<lparr>sessionId = ''s1'', title = ''Old'', messages = [\<lparr>role = User, content = ''hi''\<rparr>],
        model = ''m'', temperature = Some 1, topP = None, maxTokens = None,
        userId = Some ''u1'', createdAt = ''t0'', updatedAt = ''t0''\<rparr>"
  let ?o = "\<lparr>sessionId = ''s1'', title = ''Other'', messages = [],
        model = ''m'', temperature = None, topP = None, maxTokens = None,
        userId = Some ''u2'', createdAt = ''t0'', updatedAt = ''t0''\<rparr>"
  have h1: "session ?env = Some ?a" by simp
  have h2: "route_userId ''unknown'' ?a = Some ''u1''" by (simp add: route_userId_def)
  have h3: "route_userId ''__'' ?a = Some ''u1''" by (simp add: route_userId_def)
  have f: "filter (\<lambda>d. userId d = Some ''u1'') [?o, ?d] = filter (\<lambda>d. userId d = Some ''u1'') [?d]"
    by simp
  from reads_are_owner_scoped [OF h1 h2 h3, where ?s1.0 = "[?o, ?d]" and ?s2.0 = "[?d]"] f
  show ?thesis by blast
qed

section \<open>The listing: page size, order, title filter\<close>

lemma sorted_insert_desc:
  "sorted_wrt (\<lambda>x y. updatedAt y \<le> updatedAt x) ds \<Longrightarrow>
   sorted_wrt (\<lambda>x y. updatedAt y \<le> updatedAt x) (insert_desc d ds)"
  by (induction ds) (auto simp: set_insert_desc)

lemma sorted_sort_desc: "sorted_wrt (\<lambda>x y. updatedAt y \<le> updatedAt x) (sort_desc ds)"
  by (induction ds) (simp_all add: sort_desc_def sorted_insert_desc)

lemma sorted_find_page:
  "sorted_wrt (\<lambda>x y. updatedAt y \<le> updatedAt x) (find_page f p ps st)"
  unfolding find_page_def
  by (intro sorted_wrt_take sorted_wrt_drop sorted_sort_desc)

lemma sorted_items:
  "sorted_wrt (\<lambda>i j. item_updatedAt j \<le> item_updatedAt i)
     (map to_item (filter listable (find_page f p ps st)))"
  using sorted_wrt_filter [OF sorted_find_page, of listable f p ps st]
  by (simp add: sorted_wrt_map to_item_def)

lemma length_find_page: "length (find_page f p ps st) \<le> nat ps"
  by (simp add: find_page_def)

lemma pageSize_in_range: "pageSize_of qs = Some ps \<Longrightarrow> 5 \<le> ps \<and> ps \<le> 50"
  by (cases "parseInt (or_else (q_pageSize qs) ''20'')") (auto simp: pageSize_of_def)

lemma starts_with_iff: "starts_with p s \<longleftrightarrow> (\<exists>b. s = p @ b)"
  by (induction p s rule: starts_with.induct) auto

lemma contains_iff: "contains p s \<longleftrightarrow> (\<exists>a b. s = a @ p @ b)"
proof (induction s)
  case Nil
  then show ?case by simp
next
  case (Cons c s)
  show ?case
  proof
    assume "contains p (c # s)"
    then consider "starts_with p (c # s)" | "contains p s" by auto
    then show "\<exists>a b. c # s = a @ p @ b"
    proof cases
      case 1
      then obtain b where "c # s = [] @ p @ b" by (auto simp: starts_with_iff)
      then show ?thesis by blast
    next
      case 2
      with Cons.IH obtain a b where "s = a @ p @ b" by blast
      then have "c # s = (c # a) @ p @ b" by simp
      then show ?thesis by blast
    qed
  next
    assume "\<exists>a b. c # s = a @ p @ b"
    then obtain a b where ab: "c # s = a @ p @ b" by blast
    show "contains p (c # s)"
    proof (cases a)
      case Nil
      with ab have "starts_with p (c # s)" by (auto simp: starts_with_iff)
      then show ?thesis by simp
    next
      case (Cons x a')
      with ab have "s = a' @ p @ b" by simp
      with Cons.IH have "contains p s" by blast
      then show ?thesis by simp
    qed
  qed
qed

lemma regex_literal_plain:
  "\<not> regex_meta c \<Longrightarrow> regex_literal (c # r) = map_option ((#) c) (regex_literal r)"
  by (cases r) (auto simp: regex_meta_def)

lemma regex_literal_escaped:
  "regex_meta d \<Longrightarrow> regex_literal (CHR 0x5C # d # r) = map_option ((#) d) (regex_literal r)"
  by simp

lemma regex_literal_escapeRegExp: "regex_literal (escapeRegExp q) = Some q"
proof (induction q)
  case Nil
  then show ?case by (simp add: escapeRegExp_def)
next
  case (Cons c q)
  have e: "escapeRegExp (c # q) = (if regex_meta c then [CHR 0x5C, c] else [c]) @ escapeRegExp q"
    by (simp add: escapeRegExp_def)
  show ?case
  proof (cases "regex_meta c")
    case True
    with e Cons.IH show ?thesis by (simp add: regex_literal_escaped del: regex_literal.simps)
  next
    case False
    with e Cons.IH show ?thesis by (simp add: regex_literal_plain del: regex_literal.simps)
  qed
qed

lemma list_filter_iff:
  "list_filter uid q d \<longleftrightarrow>
     userId d = Some uid \<and> (q = [] \<or> (\<exists>a b. map to_lower (title d) = a @ map to_lower q @ b))"
  by (auto simp: list_filter_def regex_i_def regex_literal_escapeRegExp contains_iff)

lemma projection_messages:
  "projection (d\<lparr>messages := ms\<rparr>) = projection d"
  by (simp add: projection_def)


text \<open>
  When the page and the page size are numbers, the listing is as described: the page
  size is between 5 and 50, at most that many items are returned, they are in
  descending order of \<open>updatedAt\<close>, and each is the metadata of a stored document of
  the caller whose title contains the trimmed query, letters compared without case. The
  response does not depend on the messages of any document.
\<close>

lemma GET_sessions_numeric:
  assumes "session env = Some a" and "route_userId ''unknown'' a = Some uid" and "dbUp env"
    and "page_of qs = Some p" and "pageSize_of qs = Some ps"
  shows "GET_sessions env qs st =
     JsonResponse (ListJson
       \<lparr>items = map to_item (filter listable
                  (find_page (list_filter uid (trim (or_else (q_q qs) []))) p ps st)),
        page = p,
        total = length (filter (list_filter uid (trim (or_else (q_q qs) []))) st),
        totalPages =
          totalPages_of (length (filter (list_filter uid (trim (or_else (q_q qs) []))) st)) ps\<rparr>)"
  using assms by (simp add: GET_sessions_def Let_def)

lemma listing_of_numeric_page:
  assumes "session env = Some a" and "route_userId ''unknown'' a = Some uid" and "dbUp env"
    and "page_of qs = Some p" and "pageSize_of qs = Some ps"
  shows "5 \<le> ps \<and> ps \<le> 50
     \<and> (\<exists>r. GET_sessions env qs st = JsonResponse (ListJson r)
          \<and> length (items r) \<le> nat ps
          \<and> sorted_wrt (\<lambda>i j. item_updatedAt j \<le> item_updatedAt i) (items r)
          \<and> (\<forall>i\<in>set (items r). \<exists>d\<in>set st. to_item d = i \<and> userId d = Some uid
                \<and> (trim (or_else (q_q qs) []) = []
                    \<or> (\<exists>x y. map to_lower (title d)
                          = x @ map to_lower (trim (or_else (q_q qs) [])) @ y))))"
proof -
  let ?f = "list_filter uid (trim (or_else (q_q qs) []))"
  let ?its = "map to_item (filter listable (find_page ?f p ps st))"
  have len: "length ?its \<le> nat ps"
    using length_find_page [of ?f p ps st] length_filter_le [of listable "find_page ?f p ps st"]
    by (simp del: length_filter_le)
  have mem: "\<forall>i\<in>set ?its. \<exists>d\<in>set st. to_item d = i \<and> ?f d"
  proof
    fix i assume "i \<in> set ?its"
    then obtain x where "x \<in> set (find_page ?f p ps st)" and "i = to_item x" by auto
    with find_page_subset [of ?f p ps st] obtain d where "d \<in> set st" and "?f d"
      and "x = projection d" by blast
    with \<open>i = to_item x\<close> show "\<exists>d\<in>set st. to_item d = i \<and> ?f d"
      by (auto simp: to_item_projection)
  qed
  show ?thesis
    using pageSize_in_range [OF assms(5)] len mem sorted_items [of ?f p ps st]
    by (simp add: GET_sessions_numeric [OF assms] list_filter_iff)
qed

lemma list_filter_messages: "list_filter uid q (d\<lparr>messages := ms\<rparr>) = list_filter uid q d"
  by (simp add: list_filter_def)

lemma listing_ignores_messages:
  "GET_sessions env qs (map (\<lambda>d. d\<lparr>messages := g d\<rparr>) st) = GET_sessions env qs st"
proof -
  have f: "filter (list_filter uid q) (map (\<lambda>d. d\<lparr>messages := g d\<rparr>) st)
      = map (\<lambda>d. d\<lparr>messages := g d\<rparr>) (filter (list_filter uid q) st)" for uid q
    by (induction st) (simp_all add: list_filter_messages)
  have fp: "find_page (list_filter uid q) p ps (map (\<lambda>d. d\<lparr>messages := g d\<rparr>) st)
      = find_page (list_filter uid q) p ps st" for uid q p ps
    unfolding find_page_def f by (simp add: projection_messages comp_def)
  have ln: "length (filter (list_filter uid q) (map (\<lambda>d. d\<lparr>messages := g d\<rparr>) st))
      = length (filter (list_filter uid q) st)" for uid q
    unfolding f by simp
  show ?thesis
    unfolding GET_sessions_def Let_def fp ln by (rule refl)
qed

text \<open>
  C8, at a page size that is not a number. \<open>parseInt('abc', 10)\<close> is \<open>NaN\<close>, and
  \<open>Math.max\<close> and \<open>Math.min\<close> pass \<open>NaN\<close> on: the page size the handler computes for
  \<open>?pageSize=abc\<close> is \<open>NaN\<close>, not a number between 5 and 50.
\<close>

theorem page_size_not_a_number:
  "pageSize_of \<lparr>q_page = None, q_pageSize = Some ''abc'', q_q = None\<rparr> = None"
  by (simp add: pageSize_of_def parseInt_def is_ws_def is_digit_def)

section \<open>Creation: the derived title\<close>

text \<open>
  The chat route takes the first user message whose trimmed content is not empty, cut
  to 60 characters, and the default title when there is none.
\<close>

lemma chat_title_first_nonempty_user:
  "chat_title ms =
     (case List.find (\<lambda>m. role m = User \<and> trim (content m) \<noteq> []) ms of
        None \<Rightarrow> ''New Chat''
      | Some m \<Rightarrow> take 60 (content m))"
proof (cases "List.find (\<lambda>m. role m = User \<and> trim (content m) \<noteq> []) ms")
  case None
  then show ?thesis by (simp add: chat_title_def)
next
  case (Some m)
  then have "trim (content m) \<noteq> []" by (auto simp: find_Some_iff)
  then have "content m \<noteq> []" by (auto simp: trim_def)
  with Some show ?thesis by (simp add: chat_title_def)
qed

text \<open>
  C9, at a creation through \<open>POST /api/sessions\<close> with no title. The first user
  message is empty and the second is \<open>hello\<close>: the stored title is the default
  \<open>New Chat\<close>, where the chat route derives \<open>hello\<close> from the same sequence. The first
  user message is blank and the second is \<open>hi\<close>: the stored title is the blank text.
\<close>

theorem create_title_skips_no_empty_message:
  "map title
     (snd (POST_sessions
        \<lparr>session = Some \<lparr>user = Some \<lparr>id' = Some ''u1'', email = None\<rparr>\<rparr>, dbUp = True,
       now = ''t9'', uuid = ''x''\<rparr>
        (Some \<lparr>create_title = None,
               create_messages = Some [\<lparr>role = User, content = []\<rparr>,
                                       \<lparr>role = User, content = ''hello''\<rparr>],
               create_config = Some \<lparr>cfg_model = Some ''m'', cfg_temperature = None,
                                      cfg_topP = None, cfg_maxTokens = None\<rparr>\<rparr>)
        []))
   = [''New Chat'']
   \<and> chat_title [\<lparr>role = User, content = []\<rparr>, \<lparr>role = User, content = ''hello''\<rparr>] = ''hello''
   \<and> map title
     (snd (POST_sessions
        \<lparr>session = Some \<lparr>user = Some \<lparr>id' = Some ''u1'', email = None\<rparr>\<rparr>, dbUp = True,
       now = ''t9'', uuid = ''x''\<rparr>
        (Some \<lparr>create_title = None,
               create_messages = Some [\<lparr>role = User, content = ''   ''\<rparr>,
                                       \<lparr>role = User, content = ''hi''\<rparr>],
               create_config = Some \<lparr>cfg_model = Some ''m'', cfg_temperature = None,
                                      cfg_topP = None, cfg_maxTokens = None\<rparr>\<rparr>)
        []))
   = [''   '']
   \<and> chat_title [\<lparr>role = User, content = ''   ''\<rparr>, \<lparr>role = User, content = ''hi''\<rparr>] = ''hi''"
  by (simp add: POST_sessions_def route_userId_def insertOne_def create_title_of_def
      chat_title_def trim_def is_ws_def)

end
